theory Spec2Isabelle
  imports Complex_Main "HOL-Library.Multiset"
begin

section \<open>Dates\<close>

text \<open>
  A JavaScript \<open>Date\<close> is modelled by its time value: the milliseconds since the epoch,
  an \<open>int\<close>. The source reads and writes the local-time fields of a date
  (\<open>getHours\<close>, \<open>setHours\<close>, \<open>setDate\<close>, \<open>getDay\<close>); the model takes a local time
  zone with a fixed offset, folded into the time value, so that the field
  arithmetic of a \<open>Date\<close> is arithmetic on the milliseconds and the setters normalise a
  field that is out of range the way JavaScript does (hour 25 is one o'clock of the
  next day). \<open>toISOString\<close> is injective on dates, so an ISO string in a result is
  modelled by the date it renders. The arithmetic of the time values is exact, as that
  of JavaScript is for whole numbers below 2^53.
\<close>

type_synonym date = int

definition msPerMinute :: int where
  "msPerMinute = 60000"

definition msPerHour :: int where
  "msPerHour = 3600000"

definition msPerDay :: int where
  "msPerDay = 86400000"

definition getHours :: "date \<Rightarrow> int" where
  "getHours t = (t mod msPerDay) div msPerHour"

definition getMinutes :: "date \<Rightarrow> int" where
  "getMinutes t = (t mod msPerHour) div msPerMinute"

text \<open>Day of the week, 0 for Sunday; the first of January 1970 was a Thursday.\<close>

definition getDay :: "date \<Rightarrow> int" where
  "getDay t = (t div msPerDay + 4) mod 7"

text \<open>\<open>d.setHours(h)\<close>: the hour field is replaced, the other fields are kept.\<close>

definition setHours :: "date \<Rightarrow> int \<Rightarrow> date" where
  "setHours t h = t + (h - getHours t) * msPerHour"

text \<open>\<open>d.setHours(h, m, s, ms)\<close>: the whole time of the day is replaced.\<close>

definition setHours4 :: "date \<Rightarrow> int \<Rightarrow> int \<Rightarrow> int \<Rightarrow> int \<Rightarrow> date" where
  "setHours4 t h m s ms = t - t mod msPerDay + h * msPerHour + m * msPerMinute + s * 1000 + ms"

text \<open>\<open>d.setMinutes(m)\<close>: the minute field is replaced.\<close>

definition setMinutes :: "date \<Rightarrow> int \<Rightarrow> date" where
  "setMinutes t m = t + (m - getMinutes t) * msPerMinute"

text \<open>
  \<open>d.setDate(d.getDate() + n)\<close>: the source only ever moves the day of the month
  relative to itself, which moves the date by \<open>n\<close> whole days.
\<close>

definition setDate_plus :: "date \<Rightarrow> int \<Rightarrow> date" where
  "setDate_plus t n = t + n * msPerDay"

text \<open>
  A \<open>Date\<close> object holds a time value or NaN, the invalid date, which is \<open>None\<close> here.
  \<open>TimeClip\<close> is the check that every constructor and every setter of \<open>Date\<close> ends
  with: a time value further than 8.64e15 milliseconds from the epoch becomes NaN.
\<close>

type_synonym date_object = "date option"

definition TimeClip :: "int \<Rightarrow> date_object" where
  "TimeClip t =
     (if - 8640000000000000 \<le> t \<and> t \<le> 8640000000000000 then Some t else None)"

text \<open>
  A setter called on a \<open>Date\<close> object: an invalid date stays invalid, and the new time
  value is clipped.
\<close>

definition set_date :: "(date \<Rightarrow> date) \<Rightarrow> date_object \<Rightarrow> date_object" where
  "set_date f d = (case d of None \<Rightarrow> None | Some t \<Rightarrow> TimeClip (f t))"

text \<open>
  A comparison on a field of a \<open>Date\<close> object: the getters of an invalid date return
  NaN, and every comparison with NaN is false.
\<close>

definition holds :: "(date \<Rightarrow> bool) \<Rightarrow> date_object \<Rightarrow> bool" where
  "holds P d = (case d of None \<Rightarrow> False | Some t \<Rightarrow> P t)"

text \<open>\<open>a < b\<close> on two \<open>Date\<close> objects: false when either is invalid.\<close>

definition date_less :: "date_object \<Rightarrow> date_object \<Rightarrow> bool" where
  "date_less a b = (case (a, b) of (Some x, Some y) \<Rightarrow> x < y | _ \<Rightarrow> False)"

text \<open>What the functions of the application can throw.\<close>

datatype error =
    AuthTokenNotFound
  | StorageError
  | FetchFailed
  | HttpError nat
  | JsonError
  | RangeError

text \<open>\<open>d.toISOString()\<close> throws a \<open>RangeError\<close> on an invalid date.\<close>

definition toISOString :: "date_object \<Rightarrow> error + date" where
  "toISOString d = (case d of None \<Rightarrow> Inl RangeError | Some t \<Rightarrow> Inr t)"

section \<open>Tasks and the local scheduling suggestion\<close>

text \<open>
  The fields of a task object that the scheduling service
  (\<open>src/unnamed/part_005\<close>) reads, the field \<open>id\<close> written \<open>id'\<close>, and the creation
  time that the task store delivers with it. \<open>deadline\<close> is \<open>None\<close> when the property is
  null, undefined or the empty string, and otherwise the date its string parses to (a
  string that parses to no date is not modelled);
  \<open>estimated_duration\<close> is \<open>None\<close> when the property is null or undefined, and
  otherwise the whole number of minutes that the task store holds.
\<close>

record task =
  id' :: int
  title :: string
  priority :: string
  deadline :: "date option"
  estimated_duration :: "int option"
  created_at :: date

text \<open>
  The reasoning text is the template
  \<open>Scheduling based on task priority (p) and estimated duration (d minutes).\<close>;
  it is modelled by the two values that fill it.
\<close>

datatype reasoning = SchedulingBasedOn string int

record suggestion =
  suggested_start_time :: date
  suggested_end_time :: date
  reasoning :: reasoning
  confidence_score :: real

text \<open>
  Line 83: \<open>taskData.estimated_duration ? parseInt(taskData.estimated_duration) : 60\<close>.
  The number 0 is falsy in JavaScript, and \<open>parseInt\<close> of a whole number below 2^53
  is that number.
\<close>

definition duration_of :: "task \<Rightarrow> int" where
  "duration_of taskData =
     (case estimated_duration taskData of
        None \<Rightarrow> 60
      | Some d \<Rightarrow> if d = 0 then 60 else d)"

text \<open>Lines 86 and 89 to 103: the start by priority, counted from now.\<close>

definition priority_start :: "date \<Rightarrow> task \<Rightarrow> date_object" where
  "priority_start now taskData =
     (let suggestedStartTime = TimeClip now in
      if priority taskData = ''high''
        then set_date (\<lambda>s. setHours s (getHours s + 1)) suggestedStartTime
      else if priority taskData = ''medium''
        then set_date (\<lambda>s. setHours s (getHours s + 24)) suggestedStartTime
      else set_date (\<lambda>s. setHours s (getHours s + 72)) suggestedStartTime)"

text \<open>Lines 105 to 128: a deadline whose day ends before the start pulls the start back.\<close>

definition deadline_adjust :: "task \<Rightarrow> date_object \<Rightarrow> date_object" where
  "deadline_adjust taskData suggestedStartTime =
     (case deadline taskData of
        None \<Rightarrow> suggestedStartTime
      | Some dl \<Rightarrow>
          let deadline = set_date (\<lambda>t. setHours4 t 23 59 59 999) (TimeClip dl) in
          if date_less deadline suggestedStartTime then
            (if priority taskData = ''high''
               then set_date (\<lambda>s. setHours s (getHours s - 24)) deadline
             else if priority taskData = ''medium''
               then set_date (\<lambda>s. setHours s (getHours s - 48)) deadline
             else set_date (\<lambda>s. setHours s (getHours s - 72)) deadline)
          else suggestedStartTime)"

text \<open>Lines 130 to 137: the start is moved into the working hours.\<close>

definition working_hours_start :: "date_object \<Rightarrow> date_object" where
  "working_hours_start suggestedStartTime =
     (if holds (\<lambda>s. getHours s < 9) suggestedStartTime
        then set_date (\<lambda>s. setHours4 s 9 0 0 0) suggestedStartTime
      else if holds (\<lambda>s. getHours s \<ge> 17) suggestedStartTime
        then set_date (\<lambda>s. setHours4 s 9 0 0 0)
               (set_date (\<lambda>s. setDate_plus s 1) suggestedStartTime)
      else suggestedStartTime)"

text \<open>Lines 140 and 141 (and 152, 161, 165): the end is the start plus the duration.\<close>

definition end_time_of :: "date_object \<Rightarrow> int \<Rightarrow> date_object" where
  "end_time_of suggestedStartTime duration =
     set_date (\<lambda>e. setMinutes e (getMinutes e + duration)) suggestedStartTime"

text \<open>Lines 143 to 155: an end after 17:30 moves the block to nine o'clock of the next day.\<close>

definition fit_before_five :: "int \<Rightarrow> date_object \<Rightarrow> date_object \<times> date_object" where
  "fit_before_five duration suggestedStartTime =
     (let suggestedEndTime = end_time_of suggestedStartTime duration in
      if holds (\<lambda>e. getHours e \<ge> 17) suggestedEndTime then
        (if holds (\<lambda>e. getHours e = 17) suggestedEndTime
            \<and> holds (\<lambda>e. getMinutes e \<le> 30) suggestedEndTime
           then (suggestedStartTime, suggestedEndTime)
         else
           (let s = set_date (\<lambda>s. setHours4 s 9 0 0 0)
                      (set_date (\<lambda>s. setDate_plus s 1) suggestedStartTime)
            in (s, end_time_of s duration)))
      else (suggestedStartTime, suggestedEndTime))"

text \<open>Lines 157 to 167: a start on Sunday or Saturday moves to the Monday.\<close>

definition skip_weekend :: "int \<Rightarrow> date_object \<times> date_object \<Rightarrow> date_object \<times> date_object" where
  "skip_weekend duration se =
     (let suggestedStartTime = fst se in
      if holds (\<lambda>s. getDay s = 0) suggestedStartTime then
        (let s = set_date (\<lambda>s. setDate_plus s 1) suggestedStartTime
         in (s, end_time_of s duration))
      else if holds (\<lambda>s. getDay s = 6) suggestedStartTime then
        (let s = set_date (\<lambda>s. setDate_plus s 2) suggestedStartTime
         in (s, end_time_of s duration))
      else se)"

text \<open>
  \<open>generateLocalSchedulingSuggestions(taskData, startDate, endDate)\<close>. The first
  argument of the model is the clock reading \<open>new Date()\<close> of line 80; \<open>startDate\<close>
  and \<open>endDate\<close> are \<open>None\<close> for null or undefined. The two calls of \<open>toISOString\<close>
  in lines 170 and 171 throw when the start or the end has become an invalid date.
\<close>

definition generateLocalSchedulingSuggestions ::
  "date \<Rightarrow> task \<Rightarrow> date_object \<Rightarrow> date_object \<Rightarrow> error + suggestion" where
  "generateLocalSchedulingSuggestions now taskData startDate endDate =
     (let duration = duration_of taskData;
          se = skip_weekend duration
                 (fit_before_five duration
                    (working_hours_start
                       (deadline_adjust taskData (priority_start now taskData))))
      in case toISOString (fst se) of
           Inl e \<Rightarrow> Inl e
         | Inr suggestedStartTime \<Rightarrow>
             (case toISOString (snd se) of
                Inl e \<Rightarrow> Inl e
              | Inr suggestedEndTime \<Rightarrow>
                  Inr \<lparr> suggested_start_time = suggestedStartTime,
                        suggested_end_time = suggestedEndTime,
                        reasoning = SchedulingBasedOn (priority taskData) duration,
                        confidence_score = 7 / 10 \<rparr>))"

section \<open>Sorting an array with a comparator\<close>

text \<open>
  \<open>Array.prototype.sort(comparefn)\<close>. A comparator returns a number, \<open>None\<close> standing
  for NaN, which the sort reads as \<open>+0\<close>. The sort is stable, so for a comparator
  that is consistent on the elements of the array the result is the one stable sorted
  arrangement; the model computes it by insertion from the right. For a comparator
  that is not consistent the standard leaves the order to the engine, and the model
  says nothing about the engine's choice.
\<close>

definition sortCompare :: "('a \<Rightarrow> 'a \<Rightarrow> ('n::linordered_idom) option) \<Rightarrow> 'a \<Rightarrow> 'a \<Rightarrow> 'n" where
  "sortCompare comparefn a b = (case comparefn a b of None \<Rightarrow> 0 | Some v \<Rightarrow> v)"

fun insert_sorted :: "('a \<Rightarrow> 'a \<Rightarrow> ('n::linordered_idom) option) \<Rightarrow> 'a \<Rightarrow> 'a list \<Rightarrow> 'a list" where
  "insert_sorted comparefn x [] = [x]"
| "insert_sorted comparefn x (y # ys) =
     (if sortCompare comparefn x y \<le> 0 then x # y # ys
      else y # insert_sorted comparefn x ys)"

fun array_sort :: "('a \<Rightarrow> 'a \<Rightarrow> ('n::linordered_idom) option) \<Rightarrow> 'a list \<Rightarrow> 'a list" where
  "array_sort comparefn [] = []"
| "array_sort comparefn (x # xs) = insert_sorted comparefn x (array_sort comparefn xs)"

section \<open>The scheduling service\<close>

text \<open>
  The module \<open>services/aiSchedulingService\<close> (\<open>src/unnamed/part_005\<close>), whose function
  \<open>generateLocalSchedulingSuggestions\<close> is modelled above; the line numbers are those of
  that file.
\<close>

subsection \<open>Requests and their failures\<close>

text \<open>
  What one \<open>fetch\<close> gives in a run: the promise rejects (no network, timeout), or a
  response arrives with its \<open>ok\<close> flag, its status and its body, \<open>None\<close> when
  \<open>response.json()\<close> throws on it. The responses of a run are parameters of the model.
\<close>

datatype 'd http = Rejected | Response bool nat "'d option"

text \<open>
  The pattern of every request of the service: \<open>await fetch\<close>, throw when the response
  is not ok, return \<open>await response.json()\<close>.
\<close>

definition fetch_json :: "'d http \<Rightarrow> error + 'd" where
  "fetch_json h =
     (case h of
        Rejected \<Rightarrow> Inl FetchFailed
      | Response ok status body \<Rightarrow>
          if \<not> ok then Inl (HttpError status)
          else (case body of None \<Rightarrow> Inl JsonError | Some data \<Rightarrow> Inr data))"

text \<open>
  \<open>try { body } catch (error) { handler }\<close>: what the handler throws is thrown by the
  whole statement.
\<close>

definition try_catch :: "error + 'a \<Rightarrow> (error \<Rightarrow> error + 'a) \<Rightarrow> error + 'a" where
  "try_catch body handler = (case body of Inl e \<Rightarrow> handler e | Inr v \<Rightarrow> Inr v)"

text \<open>What a caller receives: the data of the backend, or a result computed locally.\<close>

datatype ('d, 'l) answer = FromRemote 'd | FromLocal 'l

subsection \<open>getSchedulingSuggestions\<close>

text \<open>
  The three exchanges of \<open>getSchedulingSuggestions\<close>: the calendar events and the time
  blocks of the window (\<open>fetchCalendarEvents\<close> and \<open>fetchTimeBlocks\<close> log and rethrow),
  then the suggestions of the backend.
\<close>

record ('ev, 'tb, 'd) suggestion_exchanges =
  events_exchange :: "'ev http"
  time_blocks_exchange :: "'tb http"
  suggestions_exchange :: "'d http"

text \<open>Lines 16 to 19 and 22 to 26: the defaults of the window; \<open>today\<close> is the clock of line 17.\<close>

definition default_startDate :: "date \<Rightarrow> date_object \<Rightarrow> date_object" where
  "default_startDate today startDate =
     (case startDate of
        None \<Rightarrow> set_date (\<lambda>s. setHours4 s 0 0 0 0) (TimeClip today)
      | Some s \<Rightarrow> TimeClip s)"

definition default_endDate :: "date_object \<Rightarrow> date_object \<Rightarrow> date_object" where
  "default_endDate startDate endDate =
     (case endDate of
        None \<Rightarrow> set_date (\<lambda>e. setHours4 e 23 59 59 999)
                  (set_date (\<lambda>e. setDate_plus e 7) startDate)
      | Some e \<Rightarrow> TimeClip e)"

text \<open>
  Lines 29 to 62, the part of the \<open>try\<close> block that can throw: the two dates of the
  window are formatted, \<open>Promise.all\<close> of the two calendar requests rejects when either
  does, and only then is the suggestion request not made.
\<close>

definition suggestions_request ::
  "('ev, 'tb, 'd) suggestion_exchanges \<Rightarrow> date_object \<Rightarrow> date_object \<Rightarrow> error + 'd" where
  "suggestions_request net startDate endDate =
     (case toISOString startDate of
        Inl e \<Rightarrow> Inl e
      | Inr formattedStartDate \<Rightarrow>
          (case toISOString endDate of
             Inl e \<Rightarrow> Inl e
           | Inr formattedEndDate \<Rightarrow>
               (case fetch_json (events_exchange net) of
                  Inl e \<Rightarrow> Inl e
                | Inr events \<Rightarrow>
                    (case fetch_json (time_blocks_exchange net) of
                       Inl e \<Rightarrow> Inl e
                     | Inr timeBlocks \<Rightarrow> fetch_json (suggestions_exchange net)))))"

text \<open>
  \<open>today\<close> is the clock reading of line 17 and \<open>now\<close> the one of line 80, made when the
  fallback runs. The \<open>catch\<close> block sees the window with its defaults filled in, and
  what the local generator throws there reaches the caller.
\<close>

definition getSchedulingSuggestions ::
  "('ev, 'tb, 'd) suggestion_exchanges \<Rightarrow> date \<Rightarrow> date \<Rightarrow> string \<Rightarrow> task \<Rightarrow>
     date_object \<Rightarrow> date_object \<Rightarrow> error + ('d, suggestion) answer" where
  "getSchedulingSuggestions net today now token taskData startDate0 endDate0 =
     (let startDate = default_startDate today startDate0;
          endDate = default_endDate startDate endDate0
      in try_catch
           (case suggestions_request net startDate endDate of
              Inl e \<Rightarrow> Inl e
            | Inr data \<Rightarrow> Inr (FromRemote data))
           (\<lambda>error.
              case generateLocalSchedulingSuggestions now taskData startDate endDate of
                Inl e \<Rightarrow> Inl e
              | Inr suggestion \<Rightarrow> Inr (FromLocal suggestion)))"

subsection \<open>getOptimizedSchedule\<close>

text \<open>
  An entry of the schedule, lines 285 to 292; the properties that share their names
  with those of a task or a suggestion carry a prime here.
\<close>

record schedule_entry =
  task_id :: int
  task_title :: string
  suggested_start_time' :: date
  suggested_end_time' :: date
  priority' :: string
  reasoning' :: reasoning

text \<open>
  The two items of \<open>localStorage\<close> that the service reads. \<open>userData\<close> is \<open>Unparsable\<close>
  when \<open>JSON.parse\<close> of the item, or reading \<open>token\<close> of what it parses to, throws;
  otherwise it holds the \<open>token\<close> property (\<open>None\<close> when there is none, as for a
  missing item, which is read as \<open>{}\<close>).
\<close>

datatype stored_user = Unparsable | UserData "string option"

record local_storage =
  userData :: stored_user
  authToken :: "string option"

text \<open>A token is truthy when it is a string that is not empty.\<close>

definition truthy :: "string option \<Rightarrow> bool" where
  "truthy s = (case s of None \<Rightarrow> False | Some v \<Rightarrow> v \<noteq> [])"

text \<open>Lines 232 to 239.\<close>

definition resolve_token :: "local_storage \<Rightarrow> string option \<Rightarrow> error + string option" where
  "resolve_token storage token =
     (if \<not> truthy token then
        (case userData storage of
           Unparsable \<Rightarrow> Inl StorageError
         | UserData t \<Rightarrow>
             (let token' = (if truthy t then t else authToken storage)
              in if \<not> truthy token' then Inl AuthTokenNotFound else Inr token'))
      else Inr token)"

text \<open>Lines 264 to 280: the comparator of the fallback.\<close>

definition priorityOrder :: "string \<Rightarrow> int option" where
  "priorityOrder p =
     (if p = ''high'' then Some 3
      else if p = ''medium'' then Some 2
      else if p = ''low'' then Some 1
      else None)"

definition compareTasks :: "task \<Rightarrow> task \<Rightarrow> int option" where
  "compareTasks a b =
     (case (priorityOrder (priority b), priorityOrder (priority a)) of
        (Some pb, Some pa) \<Rightarrow>
          (let priorityDiff = pb - pa in
           if priorityDiff \<noteq> 0 then Some priorityDiff
           else (case (deadline a, deadline b) of
                   (Some da, Some db) \<Rightarrow> Some (da - db)
                 | (Some da, None) \<Rightarrow> Some (- 1)
                 | (None, Some db) \<Rightarrow> Some 1
                 | (None, None) \<Rightarrow> Some 0))
      | _ \<Rightarrow> None)"

definition sortedTasks :: "task list \<Rightarrow> task list" where
  "sortedTasks tasks = array_sort compareTasks tasks"

text \<open>
  Lines 283 to 293: one entry per task, in the sorted order. Every call of
  \<open>generateLocalSchedulingSuggestions\<close> reads the clock anew: \<open>clock k\<close> is the reading
  of the call numbered \<open>k\<close> of the run. A call that throws ends the loop.
\<close>

definition entry_of :: "task \<Rightarrow> suggestion \<Rightarrow> schedule_entry" where
  "entry_of task suggestion =
     \<lparr> task_id = id' task,
       task_title = title task,
       suggested_start_time' = suggested_start_time suggestion,
       suggested_end_time' = suggested_end_time suggestion,
       priority' = priority task,
       reasoning' = reasoning suggestion \<rparr>"

fun schedule_loop :: "(nat \<Rightarrow> date) \<Rightarrow> nat \<Rightarrow> task list \<Rightarrow> error + schedule_entry list" where
  "schedule_loop clock k [] = Inr []"
| "schedule_loop clock k (task # rest) =
     (case generateLocalSchedulingSuggestions (clock k) task None None of
        Inl e \<Rightarrow> Inl e
      | Inr suggestion \<Rightarrow>
          (case schedule_loop clock (Suc k) rest of
             Inl e \<Rightarrow> Inl e
           | Inr schedule \<Rightarrow> Inr (entry_of task suggestion # schedule)))"

definition fallback_schedule :: "(nat \<Rightarrow> date) \<Rightarrow> task list \<Rightarrow> error + schedule_entry list" where
  "fallback_schedule clock tasks = schedule_loop clock 0 (sortedTasks tasks)"

text \<open>Lines 231 to 256, the \<open>try\<close> block: the token, then the request to the backend.\<close>

definition optimize_request :: "local_storage \<Rightarrow> 'd http \<Rightarrow> string option \<Rightarrow> error + 'd" where
  "optimize_request storage net token =
     (case resolve_token storage token of
        Inl e \<Rightarrow> Inl e
      | Inr token' \<Rightarrow> fetch_json net)"

text \<open>
  \<open>getOptimizedSchedule(token, tasks)\<close>: the result of the backend, or the fallback
  \<open>{ schedule }\<close> of the \<open>catch\<close> block; what the loop of the fallback throws reaches
  the caller.
\<close>

definition getOptimizedSchedule ::
  "local_storage \<Rightarrow> 'd http \<Rightarrow> (nat \<Rightarrow> date) \<Rightarrow> string option \<Rightarrow> task list \<Rightarrow>
     error + ('d, schedule_entry list) answer" where
  "getOptimizedSchedule storage net clock token tasks =
     try_catch
       (case optimize_request storage net token of
          Inl e \<Rightarrow> Inl e
        | Inr data \<Rightarrow> Inr (FromRemote data))
       (\<lambda>error.
          case fallback_schedule clock tasks of
            Inl e \<Rightarrow> Inl e
          | Inr schedule \<Rightarrow> Inr (FromLocal schedule))"

text \<open>Two schedule entries overlap when each starts before the other ends.\<close>

definition overlaps :: "schedule_entry \<Rightarrow> schedule_entry \<Rightarrow> bool" where
  "overlaps a b =
     (suggested_start_time' a < suggested_end_time' b \<and>
      suggested_start_time' b < suggested_end_time' a)"

text \<open>
  The latest end that lines 144 to 147 keep on the day of the start: before 17:00, or in
  the hour of 17:00 with the minute field at most 30.
\<close>

definition ends_by_half_past_five :: "date \<Rightarrow> bool" where
  "ends_by_half_past_five e \<longleftrightarrow> getHours e < 17 \<or> getHours e = 17 \<and> getMinutes e \<le> 30"

text \<open>
  The order that the ranking is said to follow, in the words of the specification and
  for the three priorities that the comparator knows: the higher priority first, then
  the earlier deadline, a task with a deadline before a task without one.
\<close>

definition no_later_deadline :: "date option \<Rightarrow> date option \<Rightarrow> bool" where
  "no_later_deadline x y =
     (case (x, y) of
        (Some a, Some b) \<Rightarrow> a \<le> b
      | (Some a, None) \<Rightarrow> True
      | (None, Some b) \<Rightarrow> False
      | (None, None) \<Rightarrow> True)"

definition ranked_before :: "task \<Rightarrow> task \<Rightarrow> bool" where
  "ranked_before a b \<longleftrightarrow>
     priority a = ''high'' \<and> (priority b = ''medium'' \<or> priority b = ''low'')
     \<or> priority a = ''medium'' \<and> priority b = ''low''
     \<or> priority a = priority b \<and> no_later_deadline (deadline a) (deadline b)"

text \<open>The three priorities that the table \<open>priorityOrder\<close> of the comparator holds.\<close>

definition known_priority :: "task \<Rightarrow> bool" where
  "known_priority t \<longleftrightarrow>
     priority t = ''high'' \<or> priority t = ''medium'' \<or> priority t = ''low''"

text \<open>
  Clock readings, deadlines and durations for which no date of the local suggestion
  leaves the range of the valid dates: the clock and the deadline within 8e15
  milliseconds of the epoch, the duration of at most 1e9 minutes.
\<close>

definition in_date_range :: "date \<Rightarrow> task \<Rightarrow> bool" where
  "in_date_range now t \<longleftrightarrow>
     \<bar>now\<bar> \<le> 8000000000000000
     \<and> (case deadline t of None \<Rightarrow> True | Some dl \<Rightarrow> \<bar>dl\<bar> \<le> 8000000000000000)
     \<and> \<bar>duration_of t\<bar> \<le> 1000000000"

text \<open>
  A \<open>Date\<close> object that a constructor or a setter has made: invalid, or within the range
  of the valid dates.
\<close>

definition valid_date :: "date_object \<Rightarrow> bool" where
  "valid_date d = (case d of None \<Rightarrow> True | Some t \<Rightarrow> \<bar>t\<bar> \<le> 8640000000000000)"

text \<open>A valid date that is at most \<open>B\<close> milliseconds from the epoch.\<close>

definition date_within :: "int \<Rightarrow> date_object \<Rightarrow> bool" where
  "date_within B d = (case d of None \<Rightarrow> False | Some t \<Rightarrow> \<bar>t\<bar> \<le> B)"

section \<open>The time block form\<close>

text \<open>
  \<open>TimeBlockModal.jsx\<close>. The form data of the component; \<open>task_id\<close> is the value of
  the task selector, empty when no task is selected, and the two times are \<open>Date\<close>
  objects (\<open>task_id\<close> and \<open>notes\<close> are written \<open>task_id'\<close> and \<open>notes'\<close>).
\<close>

record form_data =
  task_id' :: string
  start_time :: date
  end_time :: date
  status :: string
  notes' :: string
  actual_start_time :: "date option"
  actual_end_time :: "date option"

text \<open>The requests that \<open>createTimeBlock\<close> and \<open>updateTimeBlock\<close> send to the backend.\<close>

datatype request = Create form_data | Update int form_data

fun request_data :: "request \<Rightarrow> form_data" where
  "request_data (Create d) = d"
| "request_data (Update i d) = d"

text \<open>
  What the \<open>try\<close> block of \<open>handleSubmit\<close> can throw: the error of a request, or the
  \<open>TypeError\<close> of reading \<open>timeBlock.id\<close> when \<open>timeBlock\<close> is null.
\<close>

datatype thrown = TypeError | Thrown error

datatype toast =
    PleaseSelectTask
  | EndMustBeAfterStart
  | CreatedSuccessfully
  | UpdatedSuccessfully
  | SaveFailed thrown

text \<open>
  The state that \<open>handleSubmit\<close> can touch: the form data and the loading flag of the
  component, the toasts shown, the requests sent so far, and the calls of the two
  callbacks \<open>onTimeBlockChange\<close> and \<open>onClose\<close>.
\<close>

record modal_state =
  formData :: form_data
  loading :: bool
  toasts :: "toast list"
  requests :: "request list"
  changes_notified :: nat
  closed :: bool

text \<open>
  The properties of the component and its surroundings: \<open>timeBlock_id\<close> is \<open>None\<close> when
  \<open>timeBlock\<close> is null, so that reading \<open>timeBlock.id\<close> throws.
\<close>

record modal_props =
  isCreating :: bool
  timeBlock_id :: "int option"
  has_onTimeBlockChange :: bool
  token :: "string option"
  storage :: local_storage

text \<open>
  The answer of the backend to a create or update request: when the response is not
  ok, \<open>response.json()\<close> is read and an error is thrown in either case.
\<close>

definition save_response :: "'d http \<Rightarrow> error + 'd" where
  "save_response h =
     (case h of
        Rejected \<Rightarrow> Inl FetchFailed
      | Response ok st body \<Rightarrow>
          if \<not> ok then (case body of None \<Rightarrow> Inl JsonError | Some errorData \<Rightarrow> Inl (HttpError st))
          else (case body of None \<Rightarrow> Inl JsonError | Some data \<Rightarrow> Inr data))"

text \<open>
  \<open>createTimeBlock(token, timeBlockData)\<close> and
  \<open>updateTimeBlock(token, timeBlockId, timeBlockData)\<close> of \<open>calendarService.js\<close>: the
  requests that went out, and the result or the error thrown.
\<close>

definition createTimeBlock ::
  "local_storage \<Rightarrow> 'd http \<Rightarrow> string option \<Rightarrow> form_data \<Rightarrow> request list \<times> (error + 'd)" where
  "createTimeBlock st net tok timeBlockData =
     (case resolve_token st tok of
        Inl e \<Rightarrow> ([], Inl e)
      | Inr tok' \<Rightarrow> ([Create timeBlockData], save_response net))"

definition updateTimeBlock ::
  "'d http \<Rightarrow> string option \<Rightarrow> int \<Rightarrow> form_data \<Rightarrow> request list \<times> (error + 'd)" where
  "updateTimeBlock net tok timeBlockId timeBlockData =
     ([Update timeBlockId timeBlockData], save_response net)"

text \<open>
  Lines 106 to 127 of \<open>handleSubmit\<close>, after the validation: the request, the toast
  of success, the two callbacks; or the error that the \<open>catch\<close> block shows.
\<close>

definition save_time_block :: "modal_props \<Rightarrow> 'd http \<Rightarrow> modal_state \<Rightarrow> modal_state" where
  "save_time_block props net s =
     (let sent =
        (if isCreating props
           then (case createTimeBlock (storage props) net (token props) (formData s) of
                   (rs, r) \<Rightarrow> (rs, case r of Inl e \<Rightarrow> Inl (Thrown e)
                                              | Inr d \<Rightarrow> Inr CreatedSuccessfully))
         else (case timeBlock_id props of
                 None \<Rightarrow> ([], Inl TypeError)
               | Some i \<Rightarrow>
                   (case updateTimeBlock net (token props) i (formData s) of
                      (rs, r) \<Rightarrow> (rs, case r of Inl e \<Rightarrow> Inl (Thrown e)
                                                 | Inr d \<Rightarrow> Inr UpdatedSuccessfully))))
      in case sent of
           (rs, Inl e) \<Rightarrow>
             s\<lparr> requests := requests s @ rs,
                toasts := toasts s @ [SaveFailed e] \<rparr>
         | (rs, Inr success) \<Rightarrow>
             s\<lparr> requests := requests s @ rs,
                toasts := toasts s @ [success],
                changes_notified :=
                  (if has_onTimeBlockChange props then Suc (changes_notified s)
                   else changes_notified s),
                closed := True \<rparr>)"

text \<open>
  \<open>handleSubmit\<close>, lines 81 to 138: \<open>setLoading(true)\<close>, the two validations with
  their early returns, the save, and \<open>setLoading(false)\<close> on every path.
\<close>

definition handleSubmit :: "modal_props \<Rightarrow> 'd http \<Rightarrow> modal_state \<Rightarrow> modal_state" where
  "handleSubmit props net s0 =
     (let s = s0\<lparr> loading := True \<rparr> in
      if task_id' (formData s) = [] then
        s\<lparr> toasts := toasts s @ [PleaseSelectTask], loading := False \<rparr>
      else if start_time (formData s) \<ge> end_time (formData s) then
        s\<lparr> toasts := toasts s @ [EndMustBeAfterStart], loading := False \<rparr>
      else (save_time_block props net s)\<lparr> loading := False \<rparr>)"

text \<open>The invariant of a persisted time block, on the data of a request.\<close>

definition ends_after_start :: "request \<Rightarrow> bool" where
  "ends_after_start r \<longleftrightarrow> start_time (request_data r) < end_time (request_data r)"

section \<open>Applying the AI priorities to a list of tasks\<close>

text \<open>
  \<open>useTaskPrioritization.js\<close>. An entry of \<open>prioritizedTasks\<close>, as the backend
  delivers it (its \<open>id\<close> is written \<open>id_p\<close>): the score is \<open>None\<close> when the property is
  absent or null, the factors likewise.
\<close>

record 'f prioritized_task =
  id_p :: int
  ai_priority_score :: "real option"
  factors :: "'f option"

text \<open>
  A task of the list to order (its \<open>id\<close> is written \<open>id_l\<close>): \<open>other_fields\<close> stands for the
  properties that the spread \<open>...task\<close> copies unchanged, and the two properties that
  \<open>applyAIPrioritization\<close> sets are \<open>None\<close> while the object does not have them.
\<close>

record ('a, 'f) list_task =
  id_l :: int
  other_fields :: 'a
  aiPriorityScore :: "real option"
  aiPriorityFactors :: "'f option"

text \<open>\<open>x || 0\<close> on a score: an absent score and the score 0 both give 0.\<close>

definition or_zero :: "real option \<Rightarrow> real" where
  "or_zero x = (case x of None \<Rightarrow> 0 | Some v \<Rightarrow> v)"

text \<open>Lines 82 to 88: the map from the ids to the scores; a later entry replaces an earlier one.\<close>

fun priorityMap_of ::
  "(int \<rightharpoonup> real option \<times> 'f option) \<Rightarrow> 'f prioritized_task list \<Rightarrow>
     (int \<rightharpoonup> real option \<times> 'f option)" where
  "priorityMap_of priorityMap [] = priorityMap"
| "priorityMap_of priorityMap (task # rest) =
     priorityMap_of (priorityMap(id_p task \<mapsto> (ai_priority_score task, factors task))) rest"

text \<open>Lines 91 to 98: the task with its score and its factors.\<close>

definition enhance ::
  "(int \<rightharpoonup> real option \<times> 'f option) \<Rightarrow> ('a, 'f) list_task \<Rightarrow> ('a, 'f) list_task" where
  "enhance priorityMap task =
     (let priorityInfo = priorityMap (id_l task) in
      task\<lparr> aiPriorityScore :=
               Some (or_zero (case priorityInfo of None \<Rightarrow> None | Some info \<Rightarrow> fst info)),
            aiPriorityFactors :=
               (case priorityInfo of None \<Rightarrow> None | Some info \<Rightarrow> snd info) \<rparr>)"

text \<open>Lines 101 to 103: the comparator of the scores, the higher score first.\<close>

definition compareScores :: "('a, 'f) list_task \<Rightarrow> ('a, 'f) list_task \<Rightarrow> real option" where
  "compareScores a b = Some (or_zero (aiPriorityScore b) - or_zero (aiPriorityScore a))"

definition enhancedTasks_sorted ::
  "'f prioritized_task list \<Rightarrow> ('a, 'f) list_task list \<Rightarrow> ('a, 'f) list_task list" where
  "enhancedTasks_sorted prioritizedTasks tasks =
     array_sort compareScores (map (enhance (priorityMap_of Map.empty prioritizedTasks)) tasks)"

text \<open>
  The argument of \<open>applyAIPrioritization\<close>: an array of tasks, or any other value
  (null, undefined, something that is not an array).
\<close>

datatype ('v, 't) tasks_arg = NotArray 'v | Array "'t list"

text \<open>
  \<open>applyAIPrioritization(tasks)\<close>, lines 77 to 104, with the two parts of the state of
  the hook that it reads.
\<close>

definition applyAIPrioritization ::
  "bool \<Rightarrow> 'f prioritized_task list \<Rightarrow> ('v, ('a, 'f) list_task) tasks_arg \<Rightarrow>
     ('v, ('a, 'f) list_task) tasks_arg" where
  "applyAIPrioritization aiPrioritizationEnabled prioritizedTasks tasks =
     (case tasks of
        NotArray v \<Rightarrow> NotArray v
      | Array ts \<Rightarrow>
          if ts = [] then Array ts
          else if \<not> aiPrioritizationEnabled \<or> prioritizedTasks = [] then Array ts
          else Array (enhancedTasks_sorted prioritizedTasks ts))"

text \<open>
  The score that the ordering is said to follow, in the words of the specification:
  the score of the task in the list of prioritized tasks, and 0 for a task that is
  not in it. (Of two entries with one id the later one counts.)
\<close>

definition listed_score :: "'f prioritized_task list \<Rightarrow> int \<Rightarrow> real" where
  "listed_score prioritizedTasks i =
     (case find (\<lambda>p. id_p p = i) (rev prioritizedTasks) of
        None \<Rightarrow> 0
      | Some p \<Rightarrow> or_zero (ai_priority_score p))"

text \<open>The task without the two properties that \<open>applyAIPrioritization\<close> sets.\<close>

definition own_fields :: "('a, 'f) list_task \<Rightarrow> int \<times> 'a" where
  "own_fields task = (id_l task, other_fields task)"

section \<open>Properties of the dates\<close>

lemma getHours_iff:
  "9 \<le> getHours s \<and> getHours s < 17 \<longleftrightarrow>
   32400000 \<le> s mod 86400000 \<and> s mod 86400000 < 61200000"
  unfolding getHours_def msPerDay_def msPerHour_def by arith

lemma tod_nine: "setHours4 t 9 0 0 0 mod 86400000 = 32400000"
proof -
  have "(t - t mod 86400000 + 32400000) mod 86400000 = 32400000"
    by (simp add: mod_diff_left_eq [symmetric] mod_add_left_eq [symmetric])
  then show ?thesis
    by (simp add: setHours4_def msPerDay_def msPerHour_def)
qed

lemma getHours_nine: "getHours (setHours4 t 9 0 0 0) = 9"
  using tod_nine [of t] by (simp add: getHours_def msPerDay_def msPerHour_def)

lemma getHours_setDate_plus: "getHours (setDate_plus t n) = getHours t"
  by (simp add: getHours_def setDate_plus_def)

lemma getDay_setDate_plus: "getDay (setDate_plus t n) = (getDay t + n) mod 7"
  by (simp add: getDay_def setDate_plus_def msPerDay_def mod_simps ac_simps)

lemma getDay_range: "0 \<le> getDay t \<and> getDay t < 7"
  by (simp add: getDay_def)

lemma getMinutes_plus_days: "getMinutes (t + k * msPerDay) = getMinutes t"
proof -
  have "t + k * 86400000 = t + (k * 24) * 3600000" by simp
  then have "(t + k * 86400000) mod 3600000 = t mod 3600000"
    by (simp only: mod_mult_self1)
  then show ?thesis by (simp add: getMinutes_def msPerDay_def msPerHour_def)
qed

lemma getHours_plus_days: "getHours (t + k * msPerDay) = getHours t"
  by (simp add: getHours_def)

lemma div_plus_days: "(t + k * msPerDay) div msPerDay = t div msPerDay + k"
  by (simp add: msPerDay_def)

text \<open>A block of at most seven hours that starts in the working hours ends on the same day.\<close>

lemma tod_plus_minutes:
  assumes "9 \<le> getHours s" "getHours s < 17" "0 \<le> d" "d \<le> 420"
  shows "(s + d * 60000) mod 86400000 = s mod 86400000 + d * 60000"
    and "(s + d * 60000) div 86400000 = s div 86400000"
proof -
  from assms(1,2) have r: "32400000 \<le> s mod 86400000" "s mod 86400000 < 61200000"
    using getHours_iff [of s] by simp_all
  have s: "s = 86400000 * (s div 86400000) + s mod 86400000" by simp
  define q where "q = s div 86400000"
  define r where "r = s mod 86400000"
  have eq: "s + d * 60000 = 86400000 * q + (r + d * 60000)"
    using s by (simp add: q_def r_def)
  have b: "0 \<le> r + d * 60000" "r + d * 60000 < 86400000"
    using r assms(3,4) by (simp_all add: r_def)
  show "(s + d * 60000) mod 86400000 = s mod 86400000 + d * 60000"
    unfolding eq using b by (simp add: r_def)
  show "(s + d * 60000) div 86400000 = s div 86400000"
    unfolding eq using b by (simp add: q_def)
qed

lemma setHours4_eq:
  "setHours4 t h m s ms = 86400000 * (t div 86400000) + (h * 3600000 + m * 60000 + s * 1000 + ms)"
  by (simp add: setHours4_def msPerDay_def msPerHour_def msPerMinute_def minus_mod_eq_mult_div)


lemma getMinutes_day_plus: "getMinutes (86400000 * q + r) = (r mod 3600000) div 60000"
proof -
  have "86400000 * q + r = r + (24 * q) * 3600000" by simp
  then have "(86400000 * q + r) mod 3600000 = r mod 3600000"
    by (simp only: mod_mult_self1)
  then show ?thesis by (simp add: getMinutes_def msPerHour_def msPerMinute_def)
qed

section \<open>Properties of the sort\<close>

lemma insert_sorted_mset: "mset (insert_sorted c x xs) = add_mset x (mset xs)"
  by (induction xs) simp_all

lemma array_sort_mset: "mset (array_sort c xs) = mset xs"
  by (induction xs) (simp_all add: insert_sorted_mset)

lemma insert_sorted_set: "set (insert_sorted c x xs) = insert x (set xs)"
  by (induction xs) auto

lemma array_sort_set: "set (array_sort c xs) = set xs"
  by (induction xs) (simp_all add: insert_sorted_set)

text \<open>
  On a set of elements where the comparator is total and transitive, insertion keeps
  a sorted list sorted.
\<close>

lemma insert_sorted_sorted:
  assumes total: "\<And>a b. a \<in> A \<Longrightarrow> b \<in> A \<Longrightarrow> sortCompare c a b \<le> 0 \<or> sortCompare c b a \<le> 0"
    and trans: "\<And>a b d. a \<in> A \<Longrightarrow> b \<in> A \<Longrightarrow> d \<in> A \<Longrightarrow>
                  sortCompare c a b \<le> 0 \<Longrightarrow> sortCompare c b d \<le> 0 \<Longrightarrow> sortCompare c a d \<le> 0"
    and "x \<in> A" "set xs \<subseteq> A"
    and "sorted_wrt (\<lambda>a b. sortCompare c a b \<le> 0) xs"
  shows "sorted_wrt (\<lambda>a b. sortCompare c a b \<le> 0) (insert_sorted c x xs)"
  using assms(4,5)
proof (induction xs)
  case Nil
  then show ?case by simp
next
  case (Cons y ys)
  show ?case
  proof (cases "sortCompare c x y \<le> 0")
    case True
    have "sortCompare c x z \<le> 0" if "z \<in> set ys" for z
    proof -
      from Cons.prems that have "sortCompare c y z \<le> 0" "z \<in> A" "y \<in> A" by auto
      with True \<open>x \<in> A\<close> show ?thesis using trans by blast
    qed
    with True Cons.prems show ?thesis by auto
  next
    case False
    from Cons.prems have "y \<in> A" by simp
    with False \<open>x \<in> A\<close> total have "sortCompare c y x \<le> 0" by blast
    with False Cons show ?thesis by (auto simp: insert_sorted_set)
  qed
qed

lemma array_sort_sorted:
  assumes total: "\<And>a b. a \<in> A \<Longrightarrow> b \<in> A \<Longrightarrow> sortCompare c a b \<le> 0 \<or> sortCompare c b a \<le> 0"
    and trans: "\<And>a b d. a \<in> A \<Longrightarrow> b \<in> A \<Longrightarrow> d \<in> A \<Longrightarrow>
                  sortCompare c a b \<le> 0 \<Longrightarrow> sortCompare c b d \<le> 0 \<Longrightarrow> sortCompare c a d \<le> 0"
    and "set xs \<subseteq> A"
  shows "sorted_wrt (\<lambda>a b. sortCompare c a b \<le> 0) (array_sort c xs)"
  using assms(3)
proof (induction xs)
  case Nil
  then show ?case by simp
next
  case (Cons x xs)
  then have "x \<in> A" "set (array_sort c xs) \<subseteq> A"
    by (simp_all add: array_sort_set)
  with Cons show ?case
    using insert_sorted_sorted [where A = A and c = c, OF total trans] by simp
qed

text \<open>The sort is stable: elements that the comparator does not separate keep their order.\<close>

lemma insert_sorted_filter:
  assumes "\<And>y. y \<in> set xs \<Longrightarrow> P x \<Longrightarrow> P y \<Longrightarrow> sortCompare c x y \<le> 0"
  shows "filter P (insert_sorted c x xs) = (if P x then x # filter P xs else filter P xs)"
  using assms by (induction xs) auto

lemma array_sort_filter:
  assumes "\<And>x y. P x \<Longrightarrow> P y \<Longrightarrow> sortCompare c x y \<le> 0"
  shows "filter P (array_sort c xs) = filter P xs"
  using assms by (induction xs) (simp_all add: insert_sorted_filter)

text \<open>A change of the elements that the comparator does not see commutes with the sort.\<close>

lemma insert_sorted_map:
  assumes "\<And>a b. c (f a) (f b) = c a b"
  shows "insert_sorted c (f x) (map f xs) = map f (insert_sorted c x xs)"
  by (induction xs) (simp_all add: sortCompare_def assms)

lemma array_sort_map:
  assumes "\<And>a b. c (f a) (f b) = c a b"
  shows "array_sort c (map f xs) = map f (array_sort c xs)"
  by (induction xs) (simp_all add: insert_sorted_map [of c f, OF assms])

section \<open>The comparator of the tasks\<close>

lemma compareTasks_same_priority:
  "priority a = priority b \<Longrightarrow> known_priority a \<Longrightarrow>
   (sortCompare compareTasks a b \<le> 0) = no_later_deadline (deadline a) (deadline b)"
  by (auto simp: known_priority_def sortCompare_def compareTasks_def priorityOrder_def
        no_later_deadline_def split: option.splits)

lemma compareTasks_high_medium:
  "priority a = ''high'' \<Longrightarrow> priority b = ''medium'' \<Longrightarrow>
   sortCompare compareTasks a b \<le> 0 \<and> \<not> sortCompare compareTasks b a \<le> 0"
  by (simp add: sortCompare_def compareTasks_def priorityOrder_def)

lemma compareTasks_high_low:
  "priority a = ''high'' \<Longrightarrow> priority b = ''low'' \<Longrightarrow>
   sortCompare compareTasks a b \<le> 0 \<and> \<not> sortCompare compareTasks b a \<le> 0"
  by (simp add: sortCompare_def compareTasks_def priorityOrder_def)

lemma compareTasks_medium_low:
  "priority a = ''medium'' \<Longrightarrow> priority b = ''low'' \<Longrightarrow>
   sortCompare compareTasks a b \<le> 0 \<and> \<not> sortCompare compareTasks b a \<le> 0"
  by (simp add: sortCompare_def compareTasks_def priorityOrder_def)


lemma compareTasks_ranked:
  assumes "known_priority a" "known_priority b"
  shows "sortCompare compareTasks a b \<le> 0 \<longleftrightarrow> ranked_before a b"
  using assms unfolding known_priority_def
  by (elim disjE)
     (simp_all add: ranked_before_def known_priority_def compareTasks_same_priority
        compareTasks_high_medium compareTasks_high_low compareTasks_medium_low)

lemma no_later_deadline_total: "no_later_deadline x y \<or> no_later_deadline y x"
  by (auto simp: no_later_deadline_def split: option.splits)

lemma no_later_deadline_trans:
  "no_later_deadline x y \<Longrightarrow> no_later_deadline y z \<Longrightarrow> no_later_deadline x z"
  by (auto simp: no_later_deadline_def split: option.splits)

lemma ranked_before_total:
  assumes "known_priority a" "known_priority b"
  shows "ranked_before a b \<or> ranked_before b a"
  using assms no_later_deadline_total [of "deadline a" "deadline b"]
  unfolding known_priority_def
  by (elim disjE) (simp_all add: ranked_before_def)

lemma ranked_before_trans:
  assumes "known_priority a" "known_priority b" "known_priority d"
    and "ranked_before a b" "ranked_before b d"
  shows "ranked_before a d"
  using assms no_later_deadline_trans [of "deadline a" "deadline b" "deadline d"]
  unfolding known_priority_def
  by (elim disjE) (simp_all add: ranked_before_def)

lemma sortedTasks_sorted:
  assumes "\<forall>t\<in>set tasks. known_priority t"
  shows "sorted_wrt ranked_before (sortedTasks tasks)"
proof -
  have "sorted_wrt (\<lambda>a b. sortCompare compareTasks a b \<le> 0) (array_sort compareTasks tasks)"
  proof (rule array_sort_sorted [where A = "{t. known_priority t}"])
    show "set tasks \<subseteq> {t. known_priority t}" using assms by auto
  next
    fix a b assume "a \<in> {t. known_priority t}" "b \<in> {t. known_priority t}"
    then show "sortCompare compareTasks a b \<le> 0 \<or> sortCompare compareTasks b a \<le> 0"
      using ranked_before_total [of a b] by (simp add: compareTasks_ranked)
  next
    fix a b d
    assume "a \<in> {t. known_priority t}" "b \<in> {t. known_priority t}" "d \<in> {t. known_priority t}"
      "sortCompare compareTasks a b \<le> 0" "sortCompare compareTasks b d \<le> 0"
    then show "sortCompare compareTasks a d \<le> 0"
      using ranked_before_trans [of a b d] by (simp add: compareTasks_ranked)
  qed
  then show ?thesis
    unfolding sortedTasks_def
  proof (rule sorted_wrt_mono_rel [rotated])
    fix a b
    assume "a \<in> set (array_sort compareTasks tasks)" "b \<in> set (array_sort compareTasks tasks)"
      "sortCompare compareTasks a b \<le> 0"
    with assms show "ranked_before a b"
      by (simp add: array_sort_set compareTasks_ranked)
  qed
qed

lemma compareTasks_tie:
  "priority a = priority b \<Longrightarrow> deadline a = deadline b \<Longrightarrow> sortCompare compareTasks a b \<le> 0"
  by (simp add: sortCompare_def compareTasks_def split: option.splits)

lemma sortedTasks_stable:
  "filter (\<lambda>t. priority t = p \<and> deadline t = dl) (sortedTasks tasks) =
   filter (\<lambda>t. priority t = p \<and> deadline t = dl) tasks"
  unfolding sortedTasks_def
  by (rule array_sort_filter) (simp add: compareTasks_tie)

lemma sortedTasks_created_at:
  "sortedTasks (map (\<lambda>t. t\<lparr>created_at := c t\<rparr>) tasks) =
   map (\<lambda>t. t\<lparr>created_at := c t\<rparr>) (sortedTasks tasks)"
  unfolding sortedTasks_def
  by (rule array_sort_map) (simp add: compareTasks_def split: option.splits)

section \<open>Properties of the Date objects\<close>

lemma TimeClip_Some: "TimeClip x = Some t \<longleftrightarrow> t = x \<and> \<bar>x\<bar> \<le> 8640000000000000"
  by (auto simp: TimeClip_def)

lemma TimeClip_None: "TimeClip x = None \<longleftrightarrow> \<not> \<bar>x\<bar> \<le> 8640000000000000"
  by (auto simp: TimeClip_def)

lemma set_date_Some:
  "set_date f d = Some t \<longleftrightarrow> (\<exists>u. d = Some u \<and> t = f u \<and> \<bar>f u\<bar> \<le> 8640000000000000)"
  by (cases d) (auto simp: set_date_def TimeClip_Some)

lemma set_date_None [simp]: "set_date f None = None"
  by (simp add: set_date_def)

lemma holds_None [simp]: "holds P None = False"
  by (simp add: holds_def)

lemma holds_Some [simp]: "holds P (Some t) = P t"
  by (simp add: holds_def)

lemma end_time_of_Some:
  "end_time_of s d = Some e \<longleftrightarrow>
     (\<exists>a. s = Some a \<and> e = a + d * msPerMinute \<and> \<bar>a + d * msPerMinute\<bar> \<le> 8640000000000000)"
  by (auto simp: end_time_of_def set_date_Some setMinutes_def)

lemma end_time_of_None [simp]: "end_time_of None d = None"
  by (simp add: end_time_of_def)

section \<open>Properties of the stages of the local suggestion\<close>

lemma working_hours_start_range:
  assumes "working_hours_start s = Some t"
  shows "9 \<le> getHours t \<and> getHours t < 17"
proof (cases s)
  case None
  with assms show ?thesis by (simp add: working_hours_start_def)
next
  case (Some u)
  with assms show ?thesis
    by (auto simp: working_hours_start_def set_date_Some getHours_nine split: if_splits)
qed

lemma fit_before_five_fst:
  assumes "fst (fit_before_five d s) = Some a"
  shows "s = Some a \<or> (\<exists>u. s = Some u \<and> a = setHours4 (setDate_plus u 1) 9 0 0 0)"
  using assms
  by (auto simp: fit_before_five_def Let_def set_date_Some split: if_splits)

lemma fit_before_five_range:
  assumes "fst (fit_before_five d s) = Some a" and "s = Some u"
    and "9 \<le> getHours u" "getHours u < 17"
  shows "9 \<le> getHours a \<and> getHours a < 17"
  using fit_before_five_fst [OF assms(1)] assms(2-4)
  by (auto simp: getHours_nine)

lemma fit_before_five_snd:
  "snd (fit_before_five d s) = end_time_of (fst (fit_before_five d s)) d"
  by (simp add: fit_before_five_def Let_def)

lemma skip_weekend_snd:
  "snd se = end_time_of (fst se) d \<Longrightarrow>
   snd (skip_weekend d se) = end_time_of (fst (skip_weekend d se)) d"
  by (simp add: skip_weekend_def Let_def)

lemma skip_weekend_fst:
  assumes "fst (skip_weekend d se) = Some b"
  shows "\<exists>a k. fst se = Some a \<and> b = a + k * msPerDay \<and> 0 \<le> k \<and> k \<le> 2
               \<and> 1 \<le> getDay b \<and> getDay b \<le> 5"
proof (cases "fst se")
  case None
  with assms show ?thesis by (simp add: skip_weekend_def Let_def)
next
  case (Some a)
  have r: "0 \<le> getDay a \<and> getDay a < 7" by (rule getDay_range)
  consider "getDay a = 0" | "getDay a = 6" | "getDay a \<noteq> 0" "getDay a \<noteq> 6" by blast
  then show ?thesis
  proof cases
    case 1
    with assms Some have b: "b = a + 1 * msPerDay"
      by (simp add: skip_weekend_def Let_def set_date_Some setDate_plus_def)
    have "getDay b = 1"
      using 1 getDay_setDate_plus [of a 1] by (simp add: b setDate_plus_def)
    with Some b show ?thesis by force
  next
    case 2
    with assms Some have b: "b = a + 2 * msPerDay"
      by (simp add: skip_weekend_def Let_def set_date_Some setDate_plus_def)
    have "getDay b = 1"
      using 2 getDay_setDate_plus [of a 2] by (simp add: b setDate_plus_def)
    with Some b show ?thesis by force
  next
    case 3
    with assms Some have b: "b = a + 0 * msPerDay"
      by (simp add: skip_weekend_def Let_def)
    with 3 r have "1 \<le> getDay b \<and> getDay b \<le> 5" by simp
    with Some b show ?thesis by force
  qed
qed

text \<open>What a suggestion that is returned is made of.\<close>

lemma suggestion_returned:
  assumes "generateLocalSchedulingSuggestions now t sd ed = Inr g"
  shows "\<exists>se. se = skip_weekend (duration_of t)
                 (fit_before_five (duration_of t)
                    (working_hours_start (deadline_adjust t (priority_start now t))))
           \<and> fst se = Some (suggested_start_time g)
           \<and> snd se = Some (suggested_end_time g)
           \<and> reasoning g = SchedulingBasedOn (priority t) (duration_of t)"
  using assms
  by (auto simp: generateLocalSchedulingSuggestions_def Let_def toISOString_def
        split: option.splits)

lemma suggestion_end:
  assumes "generateLocalSchedulingSuggestions now t sd ed = Inr g"
  shows "suggested_end_time g = suggested_start_time g + duration_of t * msPerMinute"
proof -
  from suggestion_returned [OF assms] obtain se where
    se: "se = skip_weekend (duration_of t)
                 (fit_before_five (duration_of t)
                    (working_hours_start (deadline_adjust t (priority_start now t))))"
    and f: "fst se = Some (suggested_start_time g)"
    and s: "snd se = Some (suggested_end_time g)"
    by blast
  have "snd se = end_time_of (fst se) (duration_of t)"
    unfolding se by (rule skip_weekend_snd) (rule fit_before_five_snd)
  with f s show ?thesis by (simp add: end_time_of_Some)
qed


section \<open>The dates of a suggestion stay valid or become invalid\<close>

lemma valid_TimeClip [simp]: "valid_date (TimeClip x)"
  by (auto simp: valid_date_def TimeClip_def)

lemma valid_set_date [simp]: "valid_date (set_date f d)"
  by (cases d) (auto simp: valid_date_def set_date_def TimeClip_def)

lemma valid_None [simp]: "valid_date None"
  by (simp add: valid_date_def)

lemma valid_priority_start: "valid_date (priority_start now t)"
  by (simp add: priority_start_def Let_def)

lemma valid_deadline_adjust: "valid_date s \<Longrightarrow> valid_date (deadline_adjust t s)"
  by (simp add: deadline_adjust_def Let_def split: option.splits)

lemma valid_working_hours_start: "valid_date s \<Longrightarrow> valid_date (working_hours_start s)"
  by (simp add: working_hours_start_def)

lemma valid_fit_before_five: "valid_date s \<Longrightarrow> valid_date (fst (fit_before_five d s))"
  by (simp add: fit_before_five_def Let_def)

lemma valid_start_chain:
  "valid_date (fst (fit_before_five d
      (working_hours_start (deadline_adjust t (priority_start now t)))))"
  by (intro valid_fit_before_five valid_working_hours_start valid_deadline_adjust
        valid_priority_start)

text \<open>
  With a duration that is not negative, an end that is invalid after the working hours
  stays invalid after the weekend.
\<close>

lemma skip_weekend_end_None:
  assumes "0 \<le> d" "valid_date s" "end_time_of s d = None"
  shows "snd (skip_weekend d (s, None)) = None"
proof (cases s)
  case None
  then show ?thesis by (simp add: skip_weekend_def Let_def)
next
  case (Some a)
  with assms(2) have a: "\<bar>a\<bar> \<le> 8640000000000000" by (simp add: valid_date_def)
  from assms(3) Some have "\<not> \<bar>a + d * 60000\<bar> \<le> 8640000000000000"
    by (simp add: end_time_of_def set_date_def TimeClip_None setMinutes_def msPerMinute_def)
  with a assms(1) have big: "8640000000000000 < a + d * 60000" by simp
  have "end_time_of (TimeClip (a + k * 86400000)) d = None" if "0 \<le> k" for k
  proof (cases "TimeClip (a + k * 86400000)")
    case None
    then show ?thesis by simp
  next
    case (Some b)
    then have "b = a + k * 86400000" by (simp add: TimeClip_Some)
    with big that have "\<not> \<bar>b + d * 60000\<bar> \<le> 8640000000000000" by simp
    with Some show ?thesis
      by (simp add: end_time_of_def set_date_def TimeClip_None setMinutes_def msPerMinute_def)
  qed
  from this [of 1] this [of 2] Some show ?thesis
    by (simp add: skip_weekend_def Let_def set_date_def setDate_plus_def msPerDay_def)
qed

section \<open>The end of a block of at most seven hours\<close>

lemma fit_before_five_end:
  assumes fit: "fit_before_five d (Some u) = (Some a, Some b)"
    and u: "9 \<le> getHours u" "getHours u < 17" and d: "0 \<le> d" "d \<le> 420"
  shows "b div msPerDay = a div msPerDay \<and> ends_by_half_past_five b"
proof -
  from fit have b: "Some b = end_time_of (Some a) d"
    using fit_before_five_snd [of d "Some u"] by simp
  then have b_eq: "b = a + d * 60000"
    using end_time_of_Some [of "Some a" d b] by (simp add: msPerMinute_def)
  from fit have "fst (fit_before_five d (Some u)) = Some a" by simp
  from fit_before_five_fst [OF this]
  consider "a = u" | "a = setHours4 (setDate_plus u 1) 9 0 0 0" by auto
  then show ?thesis
  proof cases
    case 1
    have day: "b div msPerDay = a div msPerDay"
      using tod_plus_minutes(2) [OF u d] by (simp add: b_eq 1 msPerDay_def)
    have e: "end_time_of (Some u) d = Some b"
      using b 1 by simp
    have "ends_by_half_past_five b"
    proof (rule ccontr)
      assume n: "\<not> ends_by_half_past_five b"
      then have "fst (fit_before_five d (Some u)) =
                   set_date (\<lambda>s. setHours4 s 9 0 0 0) (set_date (\<lambda>s. setDate_plus s 1) (Some u))"
        by (auto simp: fit_before_five_def Let_def e ends_by_half_past_five_def)
      with fit 1 have "set_date (\<lambda>s. setHours4 s 9 0 0 0)
                         (set_date (\<lambda>s. setDate_plus s 1) (Some u)) = Some u"
        by simp
      then have "u = setHours4 (setDate_plus u 1) 9 0 0 0"
        by (auto simp: set_date_Some)
      then have "u div 86400000 = (setHours4 (setDate_plus u 1) 9 0 0 0) div 86400000" by simp
      then show False
        by (simp add: setHours4_eq setDate_plus_def msPerDay_def)
    qed
    with day show ?thesis by simp
  next
    case 2
    have h: "9 \<le> getHours a" "getHours a < 17"
      by (simp_all add: 2 getHours_nine)
    have m: "(a + d * 60000) mod 86400000 = 32400000 + d * 60000"
      using tod_plus_minutes(1) [OF h d] by (simp add: 2 tod_nine)
    have "(32400000 + d * 60000) div 3600000 < 17"
      using d(2) by arith
    then have "getHours b < 17"
      by (simp add: b_eq getHours_def msPerDay_def msPerHour_def m)
    moreover have "b div msPerDay = a div msPerDay"
      using tod_plus_minutes(2) [OF h d] by (simp add: b_eq msPerDay_def)
    ultimately show ?thesis
      by (simp add: ends_by_half_past_five_def)
  qed
qed


text \<open>The stages of a suggestion that is returned, with the dates they hold.\<close>

lemma suggestion_stages:
  assumes "generateLocalSchedulingSuggestions now t sd ed = Inr g"
  obtains u a3 k where
    "working_hours_start (deadline_adjust t (priority_start now t)) = Some u"
    "fst (fit_before_five (duration_of t) (Some u)) = Some a3"
    "a3 = u \<or> a3 = setHours4 (setDate_plus u 1) 9 0 0 0"
    "suggested_start_time g = a3 + k * msPerDay" "0 \<le> k" "k \<le> 2"
    "1 \<le> getDay (suggested_start_time g)" "getDay (suggested_start_time g) \<le> 5"
    "skip_weekend (duration_of t) (fit_before_five (duration_of t) (Some u))
       = (Some (suggested_start_time g), Some (suggested_end_time g))"
proof -
  let ?d = "duration_of t"
  let ?s2 = "working_hours_start (deadline_adjust t (priority_start now t))"
  from suggestion_returned [OF assms]
  have f: "fst (skip_weekend ?d (fit_before_five ?d ?s2)) = Some (suggested_start_time g)"
    and s: "snd (skip_weekend ?d (fit_before_five ?d ?s2)) = Some (suggested_end_time g)"
    by simp_all
  from skip_weekend_fst [OF f] obtain a3 k where
    a3: "fst (fit_before_five ?d ?s2) = Some a3"
    and k: "suggested_start_time g = a3 + k * msPerDay" "0 \<le> k" "k \<le> 2"
    and day: "1 \<le> getDay (suggested_start_time g)" "getDay (suggested_start_time g) \<le> 5"
    by blast
  from fit_before_five_fst [OF a3] obtain u where
    u: "?s2 = Some u" and a3u: "a3 = u \<or> a3 = setHours4 (setDate_plus u 1) 9 0 0 0"
    by auto
  have sk: "skip_weekend ?d (fit_before_five ?d (Some u))
          = (Some (suggested_start_time g), Some (suggested_end_time g))"
    using f s by (simp add: u prod_eq_iff)
  from a3 have a3': "fst (fit_before_five ?d (Some u)) = Some a3"
    by (simp add: u)
  from that [OF u a3' a3u k day sk] show ?thesis .
qed

lemma suggestion_window:
  assumes "generateLocalSchedulingSuggestions now t sd ed = Inr g"
  shows "9 \<le> getHours (suggested_start_time g) \<and> getHours (suggested_start_time g) < 17
       \<and> 1 \<le> getDay (suggested_start_time g) \<and> getDay (suggested_start_time g) \<le> 5
       \<and> (0 \<le> duration_of t \<and> duration_of t \<le> 420 \<longrightarrow>
            suggested_end_time g div msPerDay = suggested_start_time g div msPerDay
            \<and> ends_by_half_past_five (suggested_end_time g))"
proof -
  define d where "d = duration_of t"
  from assms obtain u a3 k where
    u: "working_hours_start (deadline_adjust t (priority_start now t)) = Some u"
    and a3: "fst (fit_before_five d (Some u)) = Some a3"
    and k: "suggested_start_time g = a3 + k * msPerDay"
    and day: "1 \<le> getDay (suggested_start_time g)" "getDay (suggested_start_time g) \<le> 5"
    and skip: "skip_weekend d (fit_before_five d (Some u))
                 = (Some (suggested_start_time g), Some (suggested_end_time g))"
    unfolding d_def by (rule suggestion_stages)
  have hu: "9 \<le> getHours u" "getHours u < 17"
    using working_hours_start_range [OF u] by simp_all
  have h3: "9 \<le> getHours a3 \<and> getHours a3 < 17"
    using fit_before_five_range [OF a3 refl hu] .
  then have start: "9 \<le> getHours (suggested_start_time g) \<and> getHours (suggested_start_time g) < 17"
    by (simp add: k getHours_plus_days)
  have "suggested_end_time g div msPerDay = suggested_start_time g div msPerDay
            \<and> ends_by_half_past_five (suggested_end_time g)"
    if d: "0 \<le> d" "d \<le> 420"
  proof -
    have e: "suggested_end_time g = suggested_start_time g + d * msPerMinute"
      unfolding d_def using assms by (rule suggestion_end)
    have v: "valid_date (Some a3)"
      using valid_start_chain [of d t now] u a3 by simp
    obtain b3 where b3: "snd (fit_before_five d (Some u)) = Some b3"
    proof (cases "snd (fit_before_five d (Some u))")
      case None
      then have fb: "fit_before_five d (Some u) = (Some a3, None)"
        using a3 by (simp add: prod_eq_iff)
      have "end_time_of (Some a3) d = None"
        using fit_before_five_snd [of d "Some u"] by (simp add: fb)
      from skip_weekend_end_None [OF d(1) v this] skip fb show ?thesis by simp
    next
      case (Some b3)
      with that show ?thesis by blast
    qed
    with a3 have fb: "fit_before_five d (Some u) = (Some a3, Some b3)"
      by (simp add: prod_eq_iff)
    from fit_before_five_end [OF fb hu d]
    have p: "b3 div msPerDay = a3 div msPerDay" "ends_by_half_past_five b3" by simp_all
    have "end_time_of (Some a3) d = Some b3"
      using fit_before_five_snd [of d "Some u"] by (simp add: fb)
    then have "b3 = a3 + d * msPerMinute"
      by (simp add: end_time_of_Some)
    then have b: "suggested_end_time g = b3 + k * msPerDay"
      by (simp add: e k)
    show ?thesis
      using p by (simp add: b k div_plus_days ends_by_half_past_five_def
                    getHours_plus_days getMinutes_plus_days)
  qed
  with start day show ?thesis unfolding d_def by blast
qed


section \<open>Suggestions that are returned\<close>

lemma TimeClip_abs:
  "TimeClip x = (if \<bar>x\<bar> \<le> 8640000000000000 then Some x else None)"
  by (auto simp: TimeClip_def)

lemma within_TimeClip:
  "\<bar>x\<bar> \<le> B \<Longrightarrow> B \<le> 8640000000000000 \<Longrightarrow> date_within B (TimeClip x)"
  by (simp add: date_within_def TimeClip_abs)

lemma within_set_date:
  assumes "date_within B d" and "\<And>t. \<bar>t\<bar> \<le> B \<Longrightarrow> \<bar>f t\<bar> \<le> B'" and "B' \<le> 8640000000000000"
  shows "date_within B' (set_date f d)"
proof -
  from assms(1) obtain t where t: "d = Some t" "\<bar>t\<bar> \<le> B"
    by (auto simp: date_within_def split: option.splits)
  from assms(2) [OF t(2)] assms(3) show ?thesis
    by (simp add: t set_date_def TimeClip_abs date_within_def)
qed

lemma within_mono: "date_within B d \<Longrightarrow> B \<le> B' \<Longrightarrow> date_within B' d"
  by (auto simp: date_within_def split: option.splits)

lemma setHours_bound: "\<bar>setHours t (getHours t + k)\<bar> \<le> \<bar>t\<bar> + \<bar>k\<bar> * 3600000"
  by (simp add: setHours_def msPerHour_def abs_mult)

lemma setDate_plus_bound: "\<bar>setDate_plus t k\<bar> \<le> \<bar>t\<bar> + \<bar>k\<bar> * 86400000"
  by (simp add: setDate_plus_def msPerDay_def abs_mult)

lemma setHours4_bound:
  assumes "0 \<le> h * 3600000 + m * 60000 + s * 1000 + ms"
    and "h * 3600000 + m * 60000 + s * 1000 + ms < 86400000"
  shows "\<bar>setHours4 t h m s ms\<bar> \<le> \<bar>t\<bar> + 86400000"
proof -
  have "0 \<le> t mod 86400000" "t mod 86400000 < 86400000" by simp_all
  with assms show ?thesis
    by (simp add: setHours4_def msPerDay_def msPerHour_def msPerMinute_def)
qed


lemma within_nine:
  assumes "date_within B d" "B + 86400000 \<le> 8640000000000000"
  shows "date_within (B + 86400000) (set_date (\<lambda>s. setHours4 s 9 0 0 0) d)"
  using assms(1)
proof (rule within_set_date)
  fix t :: int assume "\<bar>t\<bar> \<le> B"
  with setHours4_bound [of 9 0 0 0 t] show "\<bar>setHours4 t 9 0 0 0\<bar> \<le> B + 86400000"
    by simp
qed (rule assms(2))

lemma within_days:
  assumes "date_within B d" "0 \<le> k" "B + k * 86400000 \<le> 8640000000000000"
  shows "date_within (B + k * 86400000) (set_date (\<lambda>s. setDate_plus s k) d)"
  using assms(1)
proof (rule within_set_date)
  fix t :: int assume "\<bar>t\<bar> \<le> B"
  with setDate_plus_bound [of t k] assms(2) show "\<bar>setDate_plus t k\<bar> \<le> B + k * 86400000"
    by simp
qed (rule assms(3))

lemma within_next_day_nine:
  assumes "date_within B d" "B + 172800000 \<le> 8640000000000000"
  shows "date_within (B + 172800000)
           (set_date (\<lambda>s. setHours4 s 9 0 0 0) (set_date (\<lambda>s. setDate_plus s 1) d))"
proof -
  have "date_within (B + 1 * 86400000) (set_date (\<lambda>s. setDate_plus s 1) d)"
    using assms(2) by (intro within_days [OF assms(1)]) simp_all
  from within_nine [OF this]
  have "date_within (B + 1 * 86400000 + 86400000)
          (set_date (\<lambda>s. setHours4 s 9 0 0 0) (set_date (\<lambda>s. setDate_plus s 1) d))"
    using assms(2) by simp
  then show ?thesis by (simp add: ac_simps)
qed

lemma within_priority_start:
  assumes "\<bar>now\<bar> \<le> 8000000000000000"
  shows "date_within 8000000259200000 (priority_start now t)"
proof -
  have c: "date_within 8000000000000000 (TimeClip now)"
    using assms by (simp add: within_TimeClip)
  have "date_within 8000000259200000 (set_date (\<lambda>s. setHours s (getHours s + k)) (TimeClip now))"
    if "0 \<le> k" "k \<le> 72" for k
    using c
  proof (rule within_set_date)
    fix u :: int assume "\<bar>u\<bar> \<le> 8000000000000000"
    with setHours_bound [of u k] that
    show "\<bar>setHours u (getHours u + k)\<bar> \<le> 8000000259200000" by simp
  qed simp
  from this [of 1] this [of 24] this [of 72] show ?thesis
    by (simp add: priority_start_def Let_def)
qed

lemma within_deadline_adjust:
  assumes "date_within 8000000259200000 s"
    and "case deadline t of None \<Rightarrow> True | Some dl \<Rightarrow> \<bar>dl\<bar> \<le> 8000000000000000"
  shows "date_within 8000000345600000 (deadline_adjust t s)"
proof (cases "deadline t")
  case None
  have "date_within 8000000345600000 s"
    using assms(1) by (rule within_mono) simp
  with None show ?thesis
    by (simp add: deadline_adjust_def)
next
  case (Some dl)
  with assms(2) have "\<bar>dl\<bar> \<le> 8000000000000000" by simp
  then have "date_within 8000000000000000 (TimeClip dl)"
    by (simp add: within_TimeClip)
  then have e: "date_within 8000000086400000 (set_date (\<lambda>t. setHours4 t 23 59 59 999) (TimeClip dl))"
  proof (rule within_set_date)
    fix u :: int assume "\<bar>u\<bar> \<le> 8000000000000000"
    with setHours4_bound [of 23 59 59 999 u]
    show "\<bar>setHours4 u 23 59 59 999\<bar> \<le> 8000000086400000" by simp
  qed simp
  have "date_within 8000000345600000
          (set_date (\<lambda>s. setHours s (getHours s - k))
             (set_date (\<lambda>t. setHours4 t 23 59 59 999) (TimeClip dl)))"
    if "0 \<le> k" "k \<le> 72" for k
    using e
  proof (rule within_set_date)
    fix u :: int assume "\<bar>u\<bar> \<le> 8000000086400000"
    with setHours_bound [of u "- k"] that
    show "\<bar>setHours u (getHours u - k)\<bar> \<le> 8000000345600000" by simp
  qed simp
  moreover have "date_within 8000000345600000 s"
    using assms(1) by (rule within_mono) simp
  ultimately show ?thesis
    using Some by (simp add: deadline_adjust_def Let_def)
qed

lemma within_working_hours_start:
  assumes "date_within B s" "B + 172800000 \<le> 8640000000000000"
  shows "date_within (B + 172800000) (working_hours_start s)"
proof -
  have "date_within (B + 86400000) (set_date (\<lambda>s. setHours4 s 9 0 0 0) s)"
    using assms(2) by (intro within_nine [OF assms(1)]) simp
  then have a: "date_within (B + 172800000) (set_date (\<lambda>s. setHours4 s 9 0 0 0) s)"
    by (rule within_mono) simp
  have c: "date_within (B + 172800000) s"
    using assms(1) by (rule within_mono) simp
  show ?thesis
    by (simp add: working_hours_start_def a c within_next_day_nine [OF assms])
qed

lemma within_fit_before_five:
  assumes "date_within B s" "B + 172800000 \<le> 8640000000000000"
  shows "date_within (B + 172800000) (fst (fit_before_five d s))"
proof -
  have c: "date_within (B + 172800000) s"
    using assms(1) by (rule within_mono) simp
  show ?thesis
    by (simp add: fit_before_five_def Let_def c within_next_day_nine [OF assms])
qed

lemma within_skip_weekend:
  assumes "date_within B (fst se)" "B + 172800000 \<le> 8640000000000000"
  shows "date_within (B + 172800000) (fst (skip_weekend d se))"
proof -
  have "date_within (B + 1 * 86400000) (set_date (\<lambda>s. setDate_plus s 1) (fst se))"
    using assms(2) by (intro within_days [OF assms(1)]) simp_all
  then have a: "date_within (B + 172800000) (set_date (\<lambda>s. setDate_plus s 1) (fst se))"
    by (rule within_mono) simp
  have "date_within (B + 2 * 86400000) (set_date (\<lambda>s. setDate_plus s 2) (fst se))"
    using assms(2) by (intro within_days [OF assms(1)]) simp_all
  then have b: "date_within (B + 172800000) (set_date (\<lambda>s. setDate_plus s 2) (fst se))"
    by (rule within_mono) simp
  have c: "date_within (B + 172800000) (fst se)"
    using assms(1) by (rule within_mono) simp
  show ?thesis
    by (simp add: skip_weekend_def Let_def a b c)
qed

lemma suggestion_in_range:
  assumes "in_date_range now t"
  shows "\<exists>g. generateLocalSchedulingSuggestions now t sd ed = Inr g"
proof -
  define d where "d = duration_of t"
  define se where "se = skip_weekend d (fit_before_five d
                    (working_hours_start (deadline_adjust t (priority_start now t))))"
  from assms have now: "\<bar>now\<bar> \<le> 8000000000000000"
    and dl: "case deadline t of None \<Rightarrow> True | Some dl \<Rightarrow> \<bar>dl\<bar> \<le> 8000000000000000"
    and d: "\<bar>d\<bar> \<le> 1000000000"
    by (simp_all add: in_date_range_def d_def)
  have "date_within 8000000345600000 (deadline_adjust t (priority_start now t))"
    using within_priority_start [OF now] dl by (rule within_deadline_adjust)
  from within_working_hours_start [OF this]
  have "date_within 8000000518400000
          (working_hours_start (deadline_adjust t (priority_start now t)))" by simp
  from within_fit_before_five [OF this, of d]
  have "date_within 8000000691200000
          (fst (fit_before_five d (working_hours_start (deadline_adjust t (priority_start now t)))))"
    by simp
  from within_skip_weekend [OF this, of d]
  have "date_within 8000000864000000 (fst se)" by (simp add: se_def)
  then obtain a where a: "fst se = Some a" "\<bar>a\<bar> \<le> 8000000864000000"
    by (auto simp: date_within_def split: option.splits)
  have "snd se = end_time_of (fst se) d"
    unfolding se_def by (rule skip_weekend_snd) (rule fit_before_five_snd)
  moreover have "\<bar>a + d * 60000\<bar> \<le> 8640000000000000"
    using a(2) d by (simp add: abs_le_iff)
  ultimately have "snd se = Some (a + d * 60000)"
    by (simp add: a end_time_of_def set_date_def TimeClip_abs setMinutes_def msPerMinute_def)
  with a show ?thesis
    by (simp add: generateLocalSchedulingSuggestions_def Let_def toISOString_def
          se_def [symmetric] d_def [symmetric])
qed


section \<open>A deadline that is days away\<close>





section \<open>Properties of the loop of the fallback\<close>

lemma schedule_loop_entries:
  assumes "schedule_loop clock k ts = Inr es"
  shows "length es = length ts
       \<and> (\<forall>i<length ts. \<exists>s. generateLocalSchedulingSuggestions (clock (k + i)) (ts ! i) None None = Inr s
                           \<and> es ! i = entry_of (ts ! i) s)"
  using assms
proof (induction ts arbitrary: k es)
  case Nil
  then show ?case by simp
next
  case (Cons t ts)
  from Cons.prems obtain s es' where
    s: "generateLocalSchedulingSuggestions (clock k) t None None = Inr s"
    and es': "schedule_loop clock (Suc k) ts = Inr es'"
    and es: "es = entry_of t s # es'"
    by (auto split: sum.splits)
  from Cons.IH [OF es'] have len: "length es' = length ts"
    and ih: "\<And>i. i < length ts \<Longrightarrow>
              \<exists>s. generateLocalSchedulingSuggestions (clock (Suc k + i)) (ts ! i) None None = Inr s
                 \<and> es' ! i = entry_of (ts ! i) s"
    by simp_all
  have "\<exists>s. generateLocalSchedulingSuggestions (clock (k + i)) ((t # ts) ! i) None None = Inr s
           \<and> es ! i = entry_of ((t # ts) ! i) s" if "i < length (t # ts)" for i
  proof (cases i)
    case 0
    with s es show ?thesis by simp
  next
    case (Suc j)
    with that ih [of j] es show ?thesis by simp
  qed
  with len es show ?case by simp
qed

lemma schedule_loop_ids:
  "schedule_loop clock k ts = Inr es \<Longrightarrow> map task_id es = map id' ts"
proof (induction ts arbitrary: k es)
  case Nil
  then show ?case by simp
next
  case (Cons t ts)
  then show ?case
    by (auto simp: entry_of_def split: sum.splits)
qed

lemma schedule_loop_returns:
  assumes "\<And>i. i < length ts \<Longrightarrow>
             \<exists>s. generateLocalSchedulingSuggestions (clock (k + i)) (ts ! i) None None = Inr s"
  shows "\<exists>es. schedule_loop clock k ts = Inr es"
  using assms
proof (induction ts arbitrary: k)
  case Nil
  then show ?case by simp
next
  case (Cons t ts)
  from Cons.prems [of 0] obtain s where
    s: "generateLocalSchedulingSuggestions (clock k) t None None = Inr s" by auto
  have "\<exists>s. generateLocalSchedulingSuggestions (clock (Suc k + i)) (ts ! i) None None = Inr s"
    if "i < length ts" for i
    using Cons.prems [of "Suc i"] that by simp
  from Cons.IH [OF this] obtain es where
    "schedule_loop clock (Suc k) ts = Inr es" by auto
  with s show ?case by simp
qed

text \<open>A suggestion depends on the priority, the deadline and the duration of the task only.\<close>

lemma suggestion_fields:
  assumes "priority t = priority t'" "deadline t = deadline t'"
    "estimated_duration t = estimated_duration t'"
  shows "generateLocalSchedulingSuggestions now t sd ed
           = generateLocalSchedulingSuggestions now t' sd' ed'"
proof -
  have "priority_start now t = priority_start now t'"
    unfolding priority_start_def assms(1) ..
  moreover have "deadline_adjust t s = deadline_adjust t' s" for s
    unfolding deadline_adjust_def assms(1,2) ..
  moreover have "duration_of t = duration_of t'"
    unfolding duration_of_def assms(3) ..
  ultimately show ?thesis
    unfolding generateLocalSchedulingSuggestions_def assms(1) by simp
qed


section \<open>The local suggestion: working hours, duration, window\<close>

text \<open>
  Claim C3, as amended. The suggested start of every local suggestion that is returned
  lies in the working hours, from 09:00 and before 17:00, on a day from Monday to
  Friday. The suggested end is not held to 17:00: for a duration from 0 to 420 minutes
  it lies on the day of the start and no later than the minute 17:30, which the code
  keeps as close enough to five o'clock.
\<close>

theorem suggestion_start_in_working_hours:
  assumes "generateLocalSchedulingSuggestions now t sd ed = Inr g"
  shows "9 \<le> getHours (suggested_start_time g) \<and> getHours (suggested_start_time g) < 17
       \<and> 1 \<le> getDay (suggested_start_time g) \<and> getDay (suggested_start_time g) \<le> 5
       \<and> (0 \<le> duration_of t \<and> duration_of t \<le> 420 \<longrightarrow>
            suggested_end_time g div msPerDay = suggested_start_time g div msPerDay
            \<and> ends_by_half_past_five (suggested_end_time g))"
  using assms by (rule suggestion_window)

theorem suggestion_start_in_working_hours_witness:
  "generateLocalSchedulingSuggestions 399600000
      \<lparr> id' = 1, title = ''A'', priority = ''high'', deadline = None,
        estimated_duration = Some 45, created_at = 0 \<rparr> None None
     = Inr \<lparr> suggested_start_time = 403200000, suggested_end_time = 405900000,
             reasoning = SchedulingBasedOn ''high'' 45, confidence_score = 7 / 10 \<rparr>
   \<and> 0 \<le> duration_of \<lparr> id' = 1, title = ''A'', priority = ''high'', deadline = None,
        estimated_duration = Some 45, created_at = 0 \<rparr>
   \<and> duration_of \<lparr> id' = 1, title = ''A'', priority = ''high'', deadline = None,
        estimated_duration = Some 45, created_at = 0 \<rparr> \<le> 420
   \<and> 9 \<le> getHours 403200000 \<and> getHours 403200000 < 17
   \<and> ends_by_half_past_five 405900000"
proof -
  let ?t = "\<lparr> id' = 1, title = ''A'', priority = ''high'', deadline = None,
        estimated_duration = Some 45, created_at = 0 \<rparr>"
  have h: "generateLocalSchedulingSuggestions 399600000 ?t None None
     = Inr \<lparr> suggested_start_time = 403200000, suggested_end_time = 405900000,
             reasoning = SchedulingBasedOn ''high'' 45, confidence_score = 7 / 10 \<rparr>"
    by code_simp
  have d: "0 \<le> duration_of ?t \<and> duration_of ?t \<le> 420"
    by (simp add: duration_of_def)
  from suggestion_start_in_working_hours [OF h] d h show ?thesis
    by simp
qed

text \<open>
  Claim C3 as stated fails: on Monday the fifth of January 1970 at 15:00, a task of high
  priority and 90 minutes is placed from 16:00 to 17:30, so its end is after 17:00.
\<close>

theorem suggestion_end_after_five:
  "generateLocalSchedulingSuggestions 399600000
      \<lparr> id' = 1, title = ''A'', priority = ''high'', deadline = None,
        estimated_duration = Some 90, created_at = 0 \<rparr> None None
     = Inr \<lparr> suggested_start_time = 403200000, suggested_end_time = 408600000,
             reasoning = SchedulingBasedOn ''high'' 90, confidence_score = 7 / 10 \<rparr>
   \<and> getHours 408600000 = 17 \<and> getMinutes 408600000 = 30"
  by code_simp

text \<open>
  Claim C7, as amended. When \<open>estimated_duration\<close> is absent, or is the number 0, which
  the code reads as absent, the suggested end of a suggestion that is returned is the
  suggested start plus 60 minutes; when it is present and not the number 0, the length
  of the interval is that duration in minutes.
\<close>

theorem suggestion_length:
  assumes "generateLocalSchedulingSuggestions now t sd ed = Inr g"
  shows "(estimated_duration t = None \<longrightarrow>
            suggested_end_time g = suggested_start_time g + 60 * msPerMinute)
       \<and> (estimated_duration t = Some 0 \<longrightarrow>
            suggested_end_time g = suggested_start_time g + 60 * msPerMinute)
       \<and> (\<forall>d. estimated_duration t = Some d \<and> d \<noteq> 0 \<longrightarrow>
            suggested_end_time g = suggested_start_time g + d * msPerMinute)"
  using suggestion_end [OF assms] by (simp add: duration_of_def)

theorem suggestion_length_witness:
  "generateLocalSchedulingSuggestions 399600000
      \<lparr> id' = 1, title = ''A'', priority = ''high'', deadline = None,
        estimated_duration = Some 45, created_at = 0 \<rparr> None None
     = Inr \<lparr> suggested_start_time = 403200000, suggested_end_time = 405900000,
             reasoning = SchedulingBasedOn ''high'' 45, confidence_score = 7 / 10 \<rparr>
   \<and> (405900000 :: int) = 403200000 + 45 * msPerMinute
   \<and> generateLocalSchedulingSuggestions 399600000
      \<lparr> id' = 2, title = ''B'', priority = ''low'', deadline = None,
        estimated_duration = None, created_at = 0 \<rparr> None None
     = Inr \<lparr> suggested_start_time = 658800000, suggested_end_time = 662400000,
             reasoning = SchedulingBasedOn ''low'' 60, confidence_score = 7 / 10 \<rparr>
   \<and> (662400000 :: int) = 658800000 + 60 * msPerMinute
   \<and> generateLocalSchedulingSuggestions 399600000
      \<lparr> id' = 3, title = ''C'', priority = ''high'', deadline = None,
        estimated_duration = Some 0, created_at = 0 \<rparr> None None
     = Inr \<lparr> suggested_start_time = 403200000, suggested_end_time = 406800000,
             reasoning = SchedulingBasedOn ''high'' 60, confidence_score = 7 / 10 \<rparr>
   \<and> (406800000 :: int) = 403200000 + 60 * msPerMinute"
proof -
  have a: "generateLocalSchedulingSuggestions 399600000
      \<lparr> id' = 1, title = ''A'', priority = ''high'', deadline = None,
        estimated_duration = Some 45, created_at = 0 \<rparr> None None
     = Inr \<lparr> suggested_start_time = 403200000, suggested_end_time = 405900000,
             reasoning = SchedulingBasedOn ''high'' 45, confidence_score = 7 / 10 \<rparr>"
    by code_simp
  have b: "generateLocalSchedulingSuggestions 399600000
      \<lparr> id' = 2, title = ''B'', priority = ''low'', deadline = None,
        estimated_duration = None, created_at = 0 \<rparr> None None
     = Inr \<lparr> suggested_start_time = 658800000, suggested_end_time = 662400000,
             reasoning = SchedulingBasedOn ''low'' 60, confidence_score = 7 / 10 \<rparr>"
    by code_simp
  have c: "generateLocalSchedulingSuggestions 399600000
      \<lparr> id' = 3, title = ''C'', priority = ''high'', deadline = None,
        estimated_duration = Some 0, created_at = 0 \<rparr> None None
     = Inr \<lparr> suggested_start_time = 403200000, suggested_end_time = 406800000,
             reasoning = SchedulingBasedOn ''high'' 60, confidence_score = 7 / 10 \<rparr>"
    by code_simp
  from suggestion_length [OF a] suggestion_length [OF b] suggestion_length [OF c] a b c
  show ?thesis by simp
qed

text \<open>
  Claim C7 as stated fails: a task whose \<open>estimated_duration\<close> is present with the value 0
  receives an interval of 60 minutes, from 16:00 to 17:00, not of 0 minutes.
\<close>

theorem zero_duration_is_sixty_minutes:
  "estimated_duration \<lparr> id' = 1, title = ''A'', priority = ''high'', deadline = None,
        estimated_duration = Some 0, created_at = 0 \<rparr> = Some 0
   \<and> generateLocalSchedulingSuggestions 399600000
        \<lparr> id' = 1, title = ''A'', priority = ''high'', deadline = None,
          estimated_duration = Some 0, created_at = 0 \<rparr> None None
     = Inr \<lparr> suggested_start_time = 403200000, suggested_end_time = 406800000,
             reasoning = SchedulingBasedOn ''high'' 60, confidence_score = 7 / 10 \<rparr>
   \<and> (406800000 :: int) - 403200000 = 60 * 60000"
  by code_simp

text \<open>
  Claim C10. The local suggestion is the same for every window: \<open>startDate\<close> and
  \<open>endDate\<close> are never read. So a suggestion can lie outside the window: asked on
  Monday the fifth of January 1970 at 15:00 for the window of the first of January, a
  task of high priority is placed on that Monday at 16:00.
\<close>

theorem suggestion_ignores_window:
  "generateLocalSchedulingSuggestions now t s1 e1 = generateLocalSchedulingSuggestions now t s2 e2
   \<and> generateLocalSchedulingSuggestions 399600000
        \<lparr> id' = 1, title = ''A'', priority = ''high'', deadline = None,
          estimated_duration = Some 60, created_at = 0 \<rparr> (Some 0) (Some 86399999)
     = Inr \<lparr> suggested_start_time = 403200000, suggested_end_time = 406800000,
             reasoning = SchedulingBasedOn ''high'' 60, confidence_score = 7 / 10 \<rparr>"
proof
  show "generateLocalSchedulingSuggestions now t s1 e1 = generateLocalSchedulingSuggestions now t s2 e2"
    by (simp add: generateLocalSchedulingSuggestions_def)
  show "generateLocalSchedulingSuggestions 399600000
        \<lparr> id' = 1, title = ''A'', priority = ''high'', deadline = None,
          estimated_duration = Some 60, created_at = 0 \<rparr> (Some 0) (Some 86399999)
     = Inr \<lparr> suggested_start_time = 403200000, suggested_end_time = 406800000,
             reasoning = SchedulingBasedOn ''high'' 60, confidence_score = 7 / 10 \<rparr>"
    by code_simp
qed


section \<open>The fallback schedule: overlaps and deadlines\<close>

lemma fallback_schedule_entries:
  assumes "fallback_schedule clock tasks = Inr entries"
  shows "length entries = length (sortedTasks tasks)
       \<and> (\<forall>k<length (sortedTasks tasks).
            \<exists>s. generateLocalSchedulingSuggestions (clock k) (sortedTasks tasks ! k) None None = Inr s
               \<and> entries ! k = entry_of (sortedTasks tasks ! k) s)"
  using schedule_loop_entries [of clock 0 "sortedTasks tasks" entries] assms
  by (simp add: fallback_schedule_def)

lemma fallback_schedule_returns:
  assumes "\<forall>k<length tasks. \<forall>t\<in>set tasks. in_date_range (clock k) t"
  shows "\<exists>entries. fallback_schedule clock tasks = Inr entries"
  unfolding fallback_schedule_def
proof (rule schedule_loop_returns)
  fix i assume i: "i < length (sortedTasks tasks)"
  have len: "length (sortedTasks tasks) = length tasks"
    using array_sort_mset [of compareTasks tasks] by (metis sortedTasks_def size_mset)
  have "sortedTasks tasks ! i \<in> set tasks"
    using i nth_mem [of i "sortedTasks tasks"] by (simp add: sortedTasks_def array_sort_set)
  with assms i len have "in_date_range (clock i) (sortedTasks tasks ! i)" by simp
  then show "\<exists>s. generateLocalSchedulingSuggestions (clock (0 + i)) (sortedTasks tasks ! i) None None = Inr s"
    using suggestion_in_range by simp
qed

lemma fallback_schedule_ids:
  assumes "fallback_schedule clock tasks = Inr entries"
  shows "map task_id entries = map id' (sortedTasks tasks)"
  using assms unfolding fallback_schedule_def by (rule schedule_loop_ids)

text \<open>
  Claim C1, as amended. In a run of the fallback that returns, every task receives
  exactly one schedule entry, none is dropped, and each entry is the local suggestion
  of its own task at the clock reading of its own call: it is computed from that task
  and that reading alone. A run returns whenever the clock readings, the deadlines
  and the durations are in range. An assigned interval is not recorded as occupied, so
  the entries of one run are not kept apart: two tasks with the same priority, deadline
  and duration receive the same suggestion whenever their clock readings agree.
\<close>

theorem fallback_entries_independent:
  "(fallback_schedule clock tasks = Inr entries \<longrightarrow>
      (\<exists>ts. mset ts = mset tasks \<and> length entries = length ts
         \<and> (\<forall>k<length ts.
              \<exists>s. generateLocalSchedulingSuggestions (clock k) (ts ! k) None None = Inr s
                 \<and> entries ! k = entry_of (ts ! k) s)))
   \<and> ((\<forall>k<length tasks. \<forall>t\<in>set tasks. in_date_range (clock k) t) \<longrightarrow>
        (\<exists>entries'. fallback_schedule clock tasks = Inr entries'))
   \<and> (priority t = priority t' \<and> deadline t = deadline t'
        \<and> estimated_duration t = estimated_duration t' \<longrightarrow>
        generateLocalSchedulingSuggestions now t sd ed
          = generateLocalSchedulingSuggestions now t' sd' ed')"
proof (intro conjI impI)
  assume "fallback_schedule clock tasks = Inr entries"
  from fallback_schedule_entries [OF this]
  have "mset (sortedTasks tasks) = mset tasks \<and> length entries = length (sortedTasks tasks)
         \<and> (\<forall>k<length (sortedTasks tasks).
              \<exists>s. generateLocalSchedulingSuggestions (clock k) (sortedTasks tasks ! k) None None = Inr s
                 \<and> entries ! k = entry_of (sortedTasks tasks ! k) s)"
    by (simp add: sortedTasks_def array_sort_mset)
  then show "\<exists>ts. mset ts = mset tasks \<and> length entries = length ts
         \<and> (\<forall>k<length ts.
              \<exists>s. generateLocalSchedulingSuggestions (clock k) (ts ! k) None None = Inr s
                 \<and> entries ! k = entry_of (ts ! k) s)"
    by blast
next
  assume "\<forall>k<length tasks. \<forall>t\<in>set tasks. in_date_range (clock k) t"
  then show "\<exists>entries'. fallback_schedule clock tasks = Inr entries'"
    by (rule fallback_schedule_returns)
next
  assume "priority t = priority t' \<and> deadline t = deadline t'
        \<and> estimated_duration t = estimated_duration t'"
  then show "generateLocalSchedulingSuggestions now t sd ed
          = generateLocalSchedulingSuggestions now t' sd' ed'"
    by (intro suggestion_fields) simp_all
qed

theorem fallback_entries_independent_witness:
  "fallback_schedule (\<lambda>k. if k = 0 then 381600000 else 388800000)
     [\<lparr> id' = 1, title = ''A'', priority = ''high'', deadline = None,
        estimated_duration = Some 60, created_at = 0 \<rparr>,
      \<lparr> id' = 2, title = ''B'', priority = ''high'', deadline = None,
        estimated_duration = Some 60, created_at = 1 \<rparr>]
     = Inr [\<lparr> task_id = 1, task_title = ''A'', suggested_start_time' = 385200000,
               suggested_end_time' = 388800000, priority' = ''high'',
               reasoning' = SchedulingBasedOn ''high'' 60 \<rparr>,
            \<lparr> task_id = 2, task_title = ''B'', suggested_start_time' = 392400000,
               suggested_end_time' = 396000000, priority' = ''high'',
               reasoning' = SchedulingBasedOn ''high'' 60 \<rparr>]
   \<and> in_date_range 381600000
        \<lparr> id' = 1, title = ''A'', priority = ''high'', deadline = None,
          estimated_duration = Some 60, created_at = 0 \<rparr>
   \<and> in_date_range 388800000
        \<lparr> id' = 2, title = ''B'', priority = ''high'', deadline = None,
          estimated_duration = Some 60, created_at = 1 \<rparr>
   \<and> generateLocalSchedulingSuggestions 381600000
        \<lparr> id' = 1, title = ''A'', priority = ''high'', deadline = None,
          estimated_duration = Some 60, created_at = 0 \<rparr> None None
     = generateLocalSchedulingSuggestions 381600000
        \<lparr> id' = 2, title = ''B'', priority = ''high'', deadline = None,
          estimated_duration = Some 60, created_at = 1 \<rparr> None None"
proof -
  let ?a = "\<lparr> id' = 1, title = ''A'', priority = ''high'', deadline = None,
          estimated_duration = Some 60, created_at = 0 \<rparr>"
  let ?b = "\<lparr> id' = 2, title = ''B'', priority = ''high'', deadline = None,
          estimated_duration = Some 60, created_at = 1 \<rparr>"
  let ?clock = "\<lambda>k::nat. if k = 0 then 381600000 else (388800000 :: int)"
  have r: "in_date_range 381600000 ?a" "in_date_range 388800000 ?b"
          "in_date_range 388800000 ?a" "in_date_range 381600000 ?b"
    by (simp_all add: in_date_range_def duration_of_def)
  then have "\<forall>k<length [?a, ?b]. \<forall>t\<in>set [?a, ?b]. in_date_range (?clock k) t"
    by simp
  with fallback_entries_independent
         [of ?clock "[?a, ?b]"
             "[\<lparr> task_id = 1, task_title = ''A'', suggested_start_time' = 385200000,
                 suggested_end_time' = 388800000, priority' = ''high'',
                 reasoning' = SchedulingBasedOn ''high'' 60 \<rparr>,
               \<lparr> task_id = 2, task_title = ''B'', suggested_start_time' = 392400000,
                 suggested_end_time' = 396000000, priority' = ''high'',
                 reasoning' = SchedulingBasedOn ''high'' 60 \<rparr>]"
             ?a ?b 381600000 None None None None]
  obtain entries' where e: "fallback_schedule ?clock [?a, ?b] = Inr entries'"
    and same: "generateLocalSchedulingSuggestions 381600000 ?a None None
                 = generateLocalSchedulingSuggestions 381600000 ?b None None"
    by auto
  have v: "fallback_schedule ?clock [?a, ?b]
     = Inr [\<lparr> task_id = 1, task_title = ''A'', suggested_start_time' = 385200000,
               suggested_end_time' = 388800000, priority' = ''high'',
               reasoning' = SchedulingBasedOn ''high'' 60 \<rparr>,
            \<lparr> task_id = 2, task_title = ''B'', suggested_start_time' = 392400000,
               suggested_end_time' = 396000000, priority' = ''high'',
               reasoning' = SchedulingBasedOn ''high'' 60 \<rparr>]"
    by code_simp
  from v r same show ?thesis by simp
qed

text \<open>
  Claim C1 as stated fails: two tasks of high priority and 60 minutes, scheduled in one
  run on Monday the fifth of January 1970 at 10:00, both receive 11:00 to 12:00.
\<close>

theorem equal_tasks_overlap:
  "fallback_schedule (\<lambda>k. 381600000)
     [\<lparr> id' = 1, title = ''A'', priority = ''high'', deadline = None,
        estimated_duration = Some 60, created_at = 0 \<rparr>,
      \<lparr> id' = 2, title = ''B'', priority = ''high'', deadline = None,
        estimated_duration = Some 60, created_at = 1 \<rparr>]
     = Inr [\<lparr> task_id = 1, task_title = ''A'', suggested_start_time' = 385200000,
               suggested_end_time' = 388800000, priority' = ''high'',
               reasoning' = SchedulingBasedOn ''high'' 60 \<rparr>,
            \<lparr> task_id = 2, task_title = ''B'', suggested_start_time' = 385200000,
               suggested_end_time' = 388800000, priority' = ''high'',
               reasoning' = SchedulingBasedOn ''high'' 60 \<rparr>]
   \<and> overlaps
        \<lparr> task_id = 1, task_title = ''A'', suggested_start_time' = 385200000,
          suggested_end_time' = 388800000, priority' = ''high'',
          reasoning' = SchedulingBasedOn ''high'' 60 \<rparr>
        \<lparr> task_id = 2, task_title = ''B'', suggested_start_time' = 385200000,
          suggested_end_time' = 388800000, priority' = ''high'',
          reasoning' = SchedulingBasedOn ''high'' 60 \<rparr>"
  by code_simp





section \<open>The fallback schedule: order\<close>

text \<open>
  Claim C4, as amended. For tasks whose priorities are high, medium or low, the fallback
  processes the tasks and puts out their entries in the order of the priorities, high
  before medium before low; a tie in the priority is broken by the earlier deadline, a
  task with a deadline coming before a task without one; tasks that tie in both keep the
  order of the input, and the creation time is not consulted.
\<close>

theorem fallback_order:
  assumes "\<forall>t\<in>set tasks. known_priority t"
  shows "(\<forall>entries. fallback_schedule clock tasks = Inr entries \<longrightarrow>
            map task_id entries = map id' (sortedTasks tasks))
       \<and> mset (sortedTasks tasks) = mset tasks
       \<and> sorted_wrt ranked_before (sortedTasks tasks)
       \<and> (\<forall>p dl. filter (\<lambda>t. priority t = p \<and> deadline t = dl) (sortedTasks tasks)
                  = filter (\<lambda>t. priority t = p \<and> deadline t = dl) tasks)
       \<and> (\<forall>c. sortedTasks (map (\<lambda>t. t\<lparr>created_at := c t\<rparr>) tasks)
                  = map (\<lambda>t. t\<lparr>created_at := c t\<rparr>) (sortedTasks tasks))"
proof (intro conjI allI impI)
  show "map task_id entries = map id' (sortedTasks tasks)"
    if "fallback_schedule clock tasks = Inr entries" for entries
    using that by (rule fallback_schedule_ids)
  show "mset (sortedTasks tasks) = mset tasks"
    by (simp add: sortedTasks_def array_sort_mset)
  show "sorted_wrt ranked_before (sortedTasks tasks)"
    using assms by (rule sortedTasks_sorted)
  show "filter (\<lambda>t. priority t = p \<and> deadline t = dl) (sortedTasks tasks)
          = filter (\<lambda>t. priority t = p \<and> deadline t = dl) tasks" for p dl
    by (rule sortedTasks_stable)
  show "sortedTasks (map (\<lambda>t. t\<lparr>created_at := c t\<rparr>) tasks)
          = map (\<lambda>t. t\<lparr>created_at := c t\<rparr>) (sortedTasks tasks)" for c
    by (rule sortedTasks_created_at)
qed

theorem fallback_order_witness:
  "known_priority \<lparr> id' = 1, title = ''A'', priority = ''low'', deadline = None,
                    estimated_duration = None, created_at = 10 \<rparr>
   \<and> known_priority \<lparr> id' = 2, title = ''B'', priority = ''high'', deadline = Some 500000000,
                    estimated_duration = Some 30, created_at = 20 \<rparr>
   \<and> known_priority \<lparr> id' = 3, title = ''C'', priority = ''high'', deadline = Some 400000000,
                    estimated_duration = Some 60, created_at = 30 \<rparr>
   \<and> map_sum id (map task_id) (fallback_schedule (\<lambda>k. 381600000)
              [\<lparr> id' = 1, title = ''A'', priority = ''low'', deadline = None,
                  estimated_duration = None, created_at = 10 \<rparr>,
               \<lparr> id' = 2, title = ''B'', priority = ''high'', deadline = Some 500000000,
                  estimated_duration = Some 30, created_at = 20 \<rparr>,
               \<lparr> id' = 3, title = ''C'', priority = ''high'', deadline = Some 400000000,
                  estimated_duration = Some 60, created_at = 30 \<rparr>]) = Inr [3, 2, 1]
   \<and> map id' (sortedTasks
              [\<lparr> id' = 1, title = ''A'', priority = ''low'', deadline = None,
                  estimated_duration = None, created_at = 10 \<rparr>,
               \<lparr> id' = 2, title = ''B'', priority = ''high'', deadline = Some 500000000,
                  estimated_duration = Some 30, created_at = 20 \<rparr>,
               \<lparr> id' = 3, title = ''C'', priority = ''high'', deadline = Some 400000000,
                  estimated_duration = Some 60, created_at = 30 \<rparr>]) = [3, 2, 1]"
proof -
  let ?ts = "[\<lparr> id' = 1, title = ''A'', priority = ''low'', deadline = None,
                  estimated_duration = None, created_at = 10 \<rparr>,
               \<lparr> id' = 2, title = ''B'', priority = ''high'', deadline = Some 500000000,
                  estimated_duration = Some 30, created_at = 20 \<rparr>,
               \<lparr> id' = 3, title = ''C'', priority = ''high'', deadline = Some 400000000,
                  estimated_duration = Some 60, created_at = 30 \<rparr>]"
  have h: "\<forall>t\<in>set ?ts. known_priority t"
    by (simp add: known_priority_def)
  have v: "map_sum id (map task_id) (fallback_schedule (\<lambda>k. 381600000) ?ts) = Inr [3, 2, 1]"
    by code_simp
  then obtain entries where e: "fallback_schedule (\<lambda>k. 381600000) ?ts = Inr entries"
    and ids: "map task_id entries = [3, 2, 1]"
    by (cases "fallback_schedule (\<lambda>k. 381600000) ?ts") auto
  from fallback_order [OF h, of "\<lambda>k. 381600000"] e
  have "map task_id entries = map id' (sortedTasks ?ts)" by blast
  with ids have "map id' (sortedTasks ?ts) = [3, 2, 1]" by simp
  with h v show ?thesis by simp
qed

text \<open>
  Claim C4 as stated fails: a task of priority low that comes first in the input stays
  before a task of priority urgent with a deadline on the next day, and of two tasks of
  priority medium without deadlines the one created later stays first when it comes
  first in the input.
\<close>

theorem urgent_not_before_low:
  "map_sum id (map task_id) (fallback_schedule (\<lambda>k. 381600000)
     [\<lparr> id' = 2, title = ''B'', priority = ''low'', deadline = None,
        estimated_duration = Some 60, created_at = 10 \<rparr>,
      \<lparr> id' = 1, title = ''A'', priority = ''urgent'', deadline = Some 468000000,
        estimated_duration = Some 60, created_at = 20 \<rparr>]) = Inr [2, 1]
   \<and> map_sum id (map task_id) (fallback_schedule (\<lambda>k. 381600000)
     [\<lparr> id' = 3, title = ''C'', priority = ''medium'', deadline = None,
        estimated_duration = Some 60, created_at = 200 \<rparr>,
      \<lparr> id' = 4, title = ''D'', priority = ''medium'', deadline = None,
        estimated_duration = Some 60, created_at = 100 \<rparr>]) = Inr [3, 4]"
  by code_simp

section \<open>The fallback: failures of the backend, determinism\<close>

text \<open>
  When a request to the backend fails, the error of the request is dropped and the
  caller receives what the local generator gives, its suggestion or its error.
\<close>

lemma remote_failure_runs_fallback:
  "(suggestions_request net (default_startDate today sd)
        (default_endDate (default_startDate today sd) ed) = Inl e \<longrightarrow>
      getSchedulingSuggestions net today now tk t sd ed =
        map_sum id FromLocal
          (generateLocalSchedulingSuggestions now t (default_startDate today sd)
             (default_endDate (default_startDate today sd) ed)))
   \<and> (optimize_request ls h tok = Inl e' \<longrightarrow>
        getOptimizedSchedule ls h clock tok tasks =
          map_sum id FromLocal (fallback_schedule clock tasks))"
  by (auto simp: getSchedulingSuggestions_def getOptimizedSchedule_def Let_def try_catch_def
        split: sum.splits)

text \<open>
  Claim C5, evaluated where it fails. The request to the backend is rejected and the
  task has an estimated duration of 1e13 minutes: the end of the block is an invalid
  date, \<open>toISOString\<close> throws in the \<open>catch\<close> block, and the caller of
  \<open>getSchedulingSuggestions\<close> and of \<open>getOptimizedSchedule\<close> receives a \<open>RangeError\<close>
  instead of a result that is computed locally.
\<close>

theorem fallback_throws_on_invalid_date:
  "getSchedulingSuggestions
       \<lparr> events_exchange = (Rejected :: unit http),
         time_blocks_exchange = (Rejected :: unit http),
         suggestions_exchange = (Rejected :: unit http) \<rparr>
       399600000 399600000 ''secret''
       \<lparr> id' = 1, title = ''A'', priority = ''high'', deadline = None,
         estimated_duration = Some 10000000000000, created_at = 0 \<rparr> None None
     = Inl RangeError
   \<and> getOptimizedSchedule \<lparr> userData = UserData None, authToken = None \<rparr>
         (Rejected :: unit http) (\<lambda>k. 399600000) (Some ''secret'')
         [\<lparr> id' = 1, title = ''A'', priority = ''high'', deadline = None,
            estimated_duration = Some 10000000000000, created_at = 0 \<rparr>]
     = Inl RangeError"
  by code_simp

text \<open>
  Claim C6. The local scheduling is deterministic: two runs with the same tasks and the
  same readings of the clock give the same result, whatever failure of the backend led
  to the fallback and whatever the token, the stored user data and the window of the
  two runs are.
\<close>

theorem local_schedule_deterministic:
  assumes "optimize_request ls1 h1 tok1 = Inl e1" "optimize_request ls2 h2 tok2 = Inl e2"
    and "suggestions_request net1 (default_startDate today1 sd1)
           (default_endDate (default_startDate today1 sd1) ed1) = Inl e3"
    and "suggestions_request net2 (default_startDate today2 sd2)
           (default_endDate (default_startDate today2 sd2) ed2) = Inl e4"
  shows "getOptimizedSchedule ls1 h1 clock tok1 tasks = getOptimizedSchedule ls2 h2 clock tok2 tasks
       \<and> getSchedulingSuggestions net1 today1 now tk1 t sd1 ed1
           = getSchedulingSuggestions net2 today2 now tk2 t sd2 ed2"
  using assms
  by (simp add: getOptimizedSchedule_def getSchedulingSuggestions_def Let_def try_catch_def
        generateLocalSchedulingSuggestions_def)

theorem local_schedule_deterministic_witness:
  "optimize_request \<lparr> userData = UserData None, authToken = None \<rparr>
       (Response False 500 None :: unit http) (Some ''secret'') = Inl (HttpError 500)
   \<and> optimize_request \<lparr> userData = Unparsable, authToken = None \<rparr>
       (Rejected :: unit http) None = Inl StorageError
   \<and> getOptimizedSchedule \<lparr> userData = UserData None, authToken = None \<rparr>
         (Response False 500 None :: unit http) (\<lambda>k. 399600000) (Some ''secret'')
         [\<lparr> id' = 1, title = ''A'', priority = ''high'', deadline = None,
            estimated_duration = Some 60, created_at = 0 \<rparr>]
     = getOptimizedSchedule \<lparr> userData = Unparsable, authToken = None \<rparr>
         (Rejected :: unit http) (\<lambda>k. 399600000) None
         [\<lparr> id' = 1, title = ''A'', priority = ''high'', deadline = None,
            estimated_duration = Some 60, created_at = 0 \<rparr>]
   \<and> getSchedulingSuggestions
         \<lparr> events_exchange = (Rejected :: unit http),
           time_blocks_exchange = (Rejected :: unit http),
           suggestions_exchange = (Rejected :: unit http) \<rparr>
         399600000 399600000 ''secret''
         \<lparr> id' = 1, title = ''A'', priority = ''high'', deadline = None,
           estimated_duration = Some 60, created_at = 0 \<rparr> None None
     = getSchedulingSuggestions
         \<lparr> events_exchange = (Response True 200 (Some ()) :: unit http),
           time_blocks_exchange = (Response True 200 (Some ()) :: unit http),
           suggestions_exchange = (Response True 200 None :: unit http) \<rparr>
         0 399600000 ''other''
         \<lparr> id' = 1, title = ''A'', priority = ''high'', deadline = None,
           estimated_duration = Some 60, created_at = 0 \<rparr> (Some 0) (Some 86399999)"
proof -
  let ?net1 = "\<lparr> events_exchange = (Rejected :: unit http),
         time_blocks_exchange = (Rejected :: unit http),
         suggestions_exchange = (Rejected :: unit http) \<rparr>"
  let ?net2 = "\<lparr> events_exchange = (Response True 200 (Some ()) :: unit http),
         time_blocks_exchange = (Response True 200 (Some ()) :: unit http),
         suggestions_exchange = (Response True 200 None :: unit http) \<rparr>"
  let ?t = "\<lparr> id' = 1, title = ''A'', priority = ''high'', deadline = None,
         estimated_duration = Some 60, created_at = 0 \<rparr>"
  have a1: "optimize_request \<lparr> userData = UserData None, authToken = None \<rparr>
       (Response False 500 None :: unit http) (Some ''secret'') = Inl (HttpError 500)"
    by (simp add: optimize_request_def resolve_token_def truthy_def fetch_json_def)
  have a2: "optimize_request \<lparr> userData = Unparsable, authToken = None \<rparr>
       (Rejected :: unit http) None = Inl StorageError"
    by (simp add: optimize_request_def resolve_token_def truthy_def)
  have a3: "suggestions_request ?net1 (default_startDate 399600000 None)
           (default_endDate (default_startDate 399600000 None) None) = Inl FetchFailed"
    by code_simp
  have a4: "suggestions_request ?net2 (default_startDate 0 (Some 0))
           (default_endDate (default_startDate 0 (Some 0)) (Some 86399999)) = Inl JsonError"
    by code_simp
  from local_schedule_deterministic [OF a1 a2 a3 a4, of "\<lambda>k. 399600000" "[?t]" 399600000
         "''secret''" ?t "''other''"] a1 a2
  show ?thesis by blast
qed


section \<open>The time block form: validation\<close>

lemma save_time_block_requests:
  "requests (save_time_block props net s) = requests s
   \<or> requests (save_time_block props net s) = requests s @ [Create (formData s)]
   \<or> (\<exists>i. requests (save_time_block props net s) = requests s @ [Update i (formData s)])"
  by (auto simp: save_time_block_def createTimeBlock_def updateTimeBlock_def Let_def
        split: sum.splits option.splits prod.splits)

text \<open>
  Claim C8. A submission without a selected task, or with an end time that is not after
  the start time, is rejected by the validation: no create or update request goes out,
  the form data are unchanged, neither callback is called, the loading flag is off
  again, and the toast of the error is shown. Hence every request that \<open>handleSubmit\<close>
  sends carries an end time after its start time: if that held for the requests sent
  before, it holds after the submission.
\<close>

theorem invalid_time_block_rejected:
  "(task_id' (formData s) = [] \<or> end_time (formData s) \<le> start_time (formData s) \<longrightarrow>
      requests (handleSubmit props net s) = requests s
      \<and> formData (handleSubmit props net s) = formData s
      \<and> changes_notified (handleSubmit props net s) = changes_notified s
      \<and> closed (handleSubmit props net s) = closed s
      \<and> loading (handleSubmit props net s) = False
      \<and> (toasts (handleSubmit props net s) = toasts s @ [PleaseSelectTask]
         \<or> toasts (handleSubmit props net s) = toasts s @ [EndMustBeAfterStart]))
   \<and> ((\<forall>r\<in>set (requests s). ends_after_start r) \<longrightarrow>
        (\<forall>r\<in>set (requests (handleSubmit props net s)). ends_after_start r))"
proof
  show "task_id' (formData s) = [] \<or> end_time (formData s) \<le> start_time (formData s) \<longrightarrow>
      requests (handleSubmit props net s) = requests s
      \<and> formData (handleSubmit props net s) = formData s
      \<and> changes_notified (handleSubmit props net s) = changes_notified s
      \<and> closed (handleSubmit props net s) = closed s
      \<and> loading (handleSubmit props net s) = False
      \<and> (toasts (handleSubmit props net s) = toasts s @ [PleaseSelectTask]
         \<or> toasts (handleSubmit props net s) = toasts s @ [EndMustBeAfterStart])"
    by (auto simp: handleSubmit_def Let_def)
  show "(\<forall>r\<in>set (requests s). ends_after_start r) \<longrightarrow>
        (\<forall>r\<in>set (requests (handleSubmit props net s)). ends_after_start r)"
  proof (cases "task_id' (formData s) = [] \<or> end_time (formData s) \<le> start_time (formData s)")
    case True
    then have "requests (handleSubmit props net s) = requests s"
      by (auto simp: handleSubmit_def Let_def)
    then show ?thesis by simp
  next
    case False
    then have r: "requests (handleSubmit props net s)
                = requests (save_time_block props net (s\<lparr>loading := True\<rparr>))"
      by (auto simp: handleSubmit_def Let_def)
    from False have "start_time (formData s) < end_time (formData s)" by simp
    then show ?thesis
      using save_time_block_requests [of props net "s\<lparr>loading := True\<rparr>"]
      by (auto simp: r ends_after_start_def)
  qed
qed

theorem invalid_time_block_rejected_witness:
  "end_time (formData
       \<lparr> formData = \<lparr> task_id' = ''7'', start_time = 403200000, end_time = 403200000,
                      status = ''scheduled'', notes' = [], actual_start_time = None,
                      actual_end_time = None \<rparr>,
         loading = False, toasts = [], requests = [], changes_notified = 0, closed = False \<rparr>)
     \<le> start_time (formData
       \<lparr> formData = \<lparr> task_id' = ''7'', start_time = 403200000, end_time = 403200000,
                      status = ''scheduled'', notes' = [], actual_start_time = None,
                      actual_end_time = None \<rparr>,
         loading = False, toasts = [], requests = [], changes_notified = 0, closed = False \<rparr>)
   \<and> requests (handleSubmit
         \<lparr> isCreating = True, timeBlock_id = None, has_onTimeBlockChange = True,
           token = Some ''secret'', storage = \<lparr> userData = UserData None, authToken = None \<rparr> \<rparr>
         (Response True 201 (Some ()) :: unit http)
         \<lparr> formData = \<lparr> task_id' = ''7'', start_time = 403200000, end_time = 403200000,
                      status = ''scheduled'', notes' = [], actual_start_time = None,
                      actual_end_time = None \<rparr>,
           loading = False, toasts = [], requests = [], changes_notified = 0, closed = False \<rparr>)
     = []
   \<and> ends_after_start (last (requests (handleSubmit
         \<lparr> isCreating = True, timeBlock_id = None, has_onTimeBlockChange = True,
           token = Some ''secret'', storage = \<lparr> userData = UserData None, authToken = None \<rparr> \<rparr>
         (Response True 201 (Some ()) :: unit http)
         \<lparr> formData = \<lparr> task_id' = ''7'', start_time = 403200000, end_time = 406800000,
                      status = ''scheduled'', notes' = [], actual_start_time = None,
                      actual_end_time = None \<rparr>,
           loading = False, toasts = [], requests = [], changes_notified = 0, closed = False \<rparr>)))"
proof -
  let ?props = "\<lparr> isCreating = True, timeBlock_id = None, has_onTimeBlockChange = True,
           token = Some ''secret'', storage = \<lparr> userData = UserData None, authToken = None \<rparr> \<rparr>"
  let ?net = "Response True 201 (Some ()) :: unit http"
  let ?bad = "\<lparr> formData = \<lparr> task_id' = ''7'', start_time = 403200000, end_time = 403200000,
                      status = ''scheduled'', notes' = [], actual_start_time = None,
                      actual_end_time = None \<rparr>,
         loading = False, toasts = [], requests = [], changes_notified = 0, closed = False \<rparr>"
  let ?good = "\<lparr> formData = \<lparr> task_id' = ''7'', start_time = 403200000, end_time = 406800000,
                      status = ''scheduled'', notes' = [], actual_start_time = None,
                      actual_end_time = None \<rparr>,
         loading = False, toasts = [], requests = [], changes_notified = 0, closed = False \<rparr>"
  have h: "end_time (formData ?bad) \<le> start_time (formData ?bad)" by simp
  have g: "\<forall>r\<in>set (requests ?good). ends_after_start r" by simp
  have sent: "requests (handleSubmit ?props ?net ?good)
                = [Create \<lparr> task_id' = ''7'', start_time = 403200000, end_time = 406800000,
                      status = ''scheduled'', notes' = [], actual_start_time = None,
                      actual_end_time = None \<rparr>]"
    by (simp add: handleSubmit_def save_time_block_def createTimeBlock_def resolve_token_def
          truthy_def save_response_def Let_def)
  from invalid_time_block_rejected [of ?bad ?props ?net] h
  have "requests (handleSubmit ?props ?net ?bad) = []" by simp
  moreover from invalid_time_block_rejected [of ?good ?props ?net] g
  have "\<forall>r\<in>set (requests (handleSubmit ?props ?net ?good)). ends_after_start r" by blast
  then have "ends_after_start (last (requests (handleSubmit ?props ?net ?good)))"
    unfolding sent by simp
  ultimately show ?thesis using h by blast
qed

section \<open>The AI priorities: scores, permutation, order\<close>

lemma find_snoc:
  "find P (xs @ [x]) = (case find P xs of None \<Rightarrow> (if P x then Some x else None) | Some y \<Rightarrow> Some y)"
  by (induction xs) simp_all

lemma priorityMap_of_lookup:
  "priorityMap_of m pts i =
     (case find (\<lambda>p. id_p p = i) (rev pts) of
        None \<Rightarrow> m i
      | Some p \<Rightarrow> Some (ai_priority_score p, factors p))"
proof (induction pts arbitrary: m)
  case Nil
  then show ?case by simp
next
  case (Cons p pts)
  show ?case
    by (simp add: Cons.IH find_snoc split: option.splits)
qed

lemma enhance_score:
  "aiPriorityScore (enhance (priorityMap_of Map.empty pts) task)
     = Some (listed_score pts (id_l task))"
  by (simp add: enhance_def Let_def listed_score_def priorityMap_of_lookup or_zero_def
        split: option.splits)

lemma enhance_own_fields: "own_fields (enhance m task) = own_fields task"
  by (simp add: enhance_def Let_def own_fields_def)

lemma enhance_id: "id_l (enhance m task) = id_l task"
  by (simp add: enhance_def Let_def)

lemma compareScores_le:
  "sortCompare compareScores a b \<le> 0 \<longleftrightarrow>
   or_zero (aiPriorityScore b) \<le> or_zero (aiPriorityScore a)"
  by (simp add: sortCompare_def compareScores_def)

lemma enhancedTasks_sorted_scores:
  assumes "r \<in> set (enhancedTasks_sorted pts ts)"
  shows "aiPriorityScore r = Some (listed_score pts (id_l r))"
proof -
  from assms obtain task where "r = enhance (priorityMap_of Map.empty pts) task"
    by (auto simp: enhancedTasks_sorted_def array_sort_set)
  then show ?thesis by (simp add: enhance_score enhance_id)
qed

lemma enhancedTasks_sorted_order:
  "sorted_wrt (\<lambda>a b. listed_score pts (id_l b) \<le> listed_score pts (id_l a))
     (enhancedTasks_sorted pts ts)"
proof -
  have "sorted_wrt (\<lambda>a b. sortCompare compareScores a b \<le> 0) (enhancedTasks_sorted pts ts)"
    unfolding enhancedTasks_sorted_def
    by (rule array_sort_sorted [where A = UNIV]) (auto simp: compareScores_le)
  then show ?thesis
  proof (rule sorted_wrt_mono_rel [rotated])
    fix a b
    assume "a \<in> set (enhancedTasks_sorted pts ts)" "b \<in> set (enhancedTasks_sorted pts ts)"
      and "sortCompare compareScores a b \<le> 0"
    then show "listed_score pts (id_l b) \<le> listed_score pts (id_l a)"
      by (simp add: compareScores_le enhancedTasks_sorted_scores or_zero_def)
  qed
qed

lemma enhancedTasks_sorted_perm:
  "mset (map own_fields (enhancedTasks_sorted pts ts)) = mset (map own_fields ts)"
proof -
  have "mset (map own_fields (enhancedTasks_sorted pts ts))
      = image_mset own_fields (mset (map (enhance (priorityMap_of Map.empty pts)) ts))"
    by (simp add: enhancedTasks_sorted_def array_sort_mset)
  also have "\<dots> = mset (map own_fields ts)"
    by (simp add: image_mset.compositionality comp_def enhance_own_fields)
  finally show ?thesis .
qed

text \<open>
  Claim C9. For an array of tasks that is not empty, with the AI prioritization enabled
  and prioritized tasks loaded, \<open>applyAIPrioritization\<close> returns the tasks of the input,
  each once and with its score attached, in the order of the scores, the highest first;
  the score of a task is its score in the list of prioritized tasks, and 0 when the
  task is not in that list. For an argument that is not an array, an empty array, a
  disabled prioritization or an empty list of prioritized tasks, the argument is
  returned as it is.
\<close>

theorem ai_prioritization_sorted:
  "applyAIPrioritization en pts (NotArray v) = NotArray v
   \<and> (ts = [] \<or> \<not> en \<or> pts = [] \<longrightarrow> applyAIPrioritization en pts (Array ts) = Array ts)
   \<and> (ts \<noteq> [] \<and> en \<and> pts \<noteq> [] \<longrightarrow>
        applyAIPrioritization en pts (Array ts) = Array (enhancedTasks_sorted pts ts))
   \<and> mset (map own_fields (enhancedTasks_sorted pts ts)) = mset (map own_fields ts)
   \<and> (\<forall>r\<in>set (enhancedTasks_sorted pts ts).
         aiPriorityScore r = Some (listed_score pts (id_l r)))
   \<and> sorted_wrt (\<lambda>a b. listed_score pts (id_l b) \<le> listed_score pts (id_l a))
        (enhancedTasks_sorted pts ts)"
  using enhancedTasks_sorted_perm [of pts ts] enhancedTasks_sorted_order [of pts ts]
  by (auto simp: applyAIPrioritization_def enhancedTasks_sorted_scores)

theorem ai_prioritization_sorted_witness:
  "[\<lparr> id_l = 1, other_fields = ''write'', aiPriorityScore = None, aiPriorityFactors = None \<rparr>,
    \<lparr> id_l = 2, other_fields = ''call'', aiPriorityScore = None, aiPriorityFactors = None \<rparr>,
    \<lparr> id_l = 3, other_fields = ''read'', aiPriorityScore = None, aiPriorityFactors = None \<rparr>]
     \<noteq> ([] :: (string, unit) list_task list)
   \<and> [\<lparr> id_p = 2, ai_priority_score = Some 40, factors = None \<rparr>,
      \<lparr> id_p = 3, ai_priority_score = Some 85, factors = Some () \<rparr>] \<noteq> []
   \<and> applyAIPrioritization True
       [\<lparr> id_p = 2, ai_priority_score = Some 40, factors = None \<rparr>,
        \<lparr> id_p = 3, ai_priority_score = Some 85, factors = Some () \<rparr>]
       (Array
         [\<lparr> id_l = 1, other_fields = ''write'', aiPriorityScore = None, aiPriorityFactors = None \<rparr>,
          \<lparr> id_l = 2, other_fields = ''call'', aiPriorityScore = None, aiPriorityFactors = None \<rparr>,
          \<lparr> id_l = 3, other_fields = ''read'', aiPriorityScore = None, aiPriorityFactors = None \<rparr>]
        :: (unit, (string, unit) list_task) tasks_arg)
     = Array
         [\<lparr> id_l = 3, other_fields = ''read'', aiPriorityScore = Some 85, aiPriorityFactors = Some () \<rparr>,
          \<lparr> id_l = 2, other_fields = ''call'', aiPriorityScore = Some 40, aiPriorityFactors = None \<rparr>,
          \<lparr> id_l = 1, other_fields = ''write'', aiPriorityScore = Some 0, aiPriorityFactors = None \<rparr>]"
proof -
  let ?ts = "[\<lparr> id_l = 1, other_fields = ''write'', aiPriorityScore = None, aiPriorityFactors = None \<rparr>,
    \<lparr> id_l = 2, other_fields = ''call'', aiPriorityScore = None, aiPriorityFactors = None \<rparr>,
    \<lparr> id_l = 3, other_fields = ''read'', aiPriorityScore = None, aiPriorityFactors = None \<rparr>]
     :: (string, unit) list_task list"
  let ?pts = "[\<lparr> id_p = 2, ai_priority_score = Some 40, factors = None \<rparr>,
      \<lparr> id_p = 3, ai_priority_score = Some 85, factors = Some () \<rparr>]"
  have h: "?ts \<noteq> [] \<and> True \<and> ?pts \<noteq> []" by simp
  have v: "enhancedTasks_sorted ?pts ?ts =
         [\<lparr> id_l = 3, other_fields = ''read'', aiPriorityScore = Some 85, aiPriorityFactors = Some () \<rparr>,
          \<lparr> id_l = 2, other_fields = ''call'', aiPriorityScore = Some 40, aiPriorityFactors = None \<rparr>,
          \<lparr> id_l = 1, other_fields = ''write'', aiPriorityScore = Some 0, aiPriorityFactors = None \<rparr>]"
    by (simp add: enhancedTasks_sorted_def enhance_def or_zero_def sortCompare_def compareScores_def)
  from ai_prioritization_sorted [of True ?pts "()" ?ts] h
  have "applyAIPrioritization True ?pts (Array ?ts :: (unit, (string, unit) list_task) tasks_arg)
          = Array (enhancedTasks_sorted ?pts ?ts)"
    by blast
  with v h show ?thesis by simp
qed

end
